theory Spec2Isabelle
  imports Main "HOL-Library.Word" "HOL-Library.Log_Nat" "HOL-Library.State_Monad"
begin

section \<open>JavaScript values used by \<^verbatim>\<open>src/index.js\<close>\<close>

subsection \<open>Strings\<close>

text \<open>
  A JavaScript string is a sequence of UTF-16 code units: \<^verbatim>\<open>length\<close> and
  \<^verbatim>\<open>substring\<close> count code units, so an emoji outside the basic plane is two
  elements (its surrogate pair). \<open>js\<close> embeds an ASCII literal; the non-ASCII literals
  of the source are written out as their code units.
\<close>

type_synonym jsstring = "16 word list"

definition js :: "string \<Rightarrow> jsstring" where
  "js s = map of_char s"

text \<open>\<^verbatim>\<open>s.substring(0, n)\<close> is \<open>take n s\<close>; the empty string is the only falsy string.\<close>

definition substring0 :: "nat \<Rightarrow> jsstring \<Rightarrow> jsstring" where
  "substring0 n s = take n s"

text \<open>\<^verbatim>\<open>v || d\<close> for a property that is a string when present; \<open>None\<close> is
  \<^verbatim>\<open>undefined\<close> or \<^verbatim>\<open>null\<close>, which the source never tells apart for these.\<close>

definition orDefault :: "jsstring option \<Rightarrow> jsstring \<Rightarrow> jsstring" where
  "orDefault v d = (case v of None \<Rightarrow> d | Some s \<Rightarrow> if s = [] then d else s)"

text \<open>\<^verbatim>\<open>s.replace(pat, rep)\<close> with a string pattern: the first occurrence of
  \<open>pat\<close>, wherever it is, is replaced; nothing else is.\<close>

fun replaceFirst :: "jsstring \<Rightarrow> jsstring \<Rightarrow> jsstring \<Rightarrow> jsstring" where
  "replaceFirst pat rep [] = (if pat = [] then rep else [])"
| "replaceFirst pat rep (c # cs) =
     (if take (length pat) (c # cs) = pat then rep @ drop (length pat) (c # cs)
      else c # replaceFirst pat rep cs)"

text \<open>\<^verbatim>\<open>s.split('\n')[0]\<close>: the text before the first line feed.\<close>

definition firstLine :: "jsstring \<Rightarrow> jsstring" where
  "firstLine s = takeWhile (\<lambda>c. c \<noteq> 0x0A) s"

text \<open>\<^verbatim>\<open>xs.join(sep)\<close> on an array of strings.\<close>

fun join :: "jsstring \<Rightarrow> jsstring list \<Rightarrow> jsstring" where
  "join sep [] = []"
| "join sep [x] = x"
| "join sep (x # y # ys) = x @ sep @ join sep (y # ys)"

text \<open>The regular-expression class \<^verbatim>\<open>\w\<close> (no unicode flag): ASCII letters, digits
  and the underscore. \<^verbatim>\<open>toUpperCase\<close> is only ever applied to one such code unit.\<close>

definition isWordChar :: "16 word \<Rightarrow> bool" where
  "isWordChar c \<longleftrightarrow>
     (0x41 \<le> c \<and> c \<le> 0x5A) \<or> (0x61 \<le> c \<and> c \<le> 0x7A) \<or> (0x30 \<le> c \<and> c \<le> 0x39) \<or> c = 0x5F"

definition toUpperCaseWordChar :: "16 word \<Rightarrow> 16 word" where
  "toUpperCaseWordChar c = (if 0x61 \<le> c \<and> c \<le> 0x7A then c - 0x20 else c)"

text \<open>\<^verbatim>\<open>s.replace(/_/g, ' ')\<close>.\<close>

definition underscoresToSpaces :: "jsstring \<Rightarrow> jsstring" where
  "underscoresToSpaces s = map (\<lambda>c. if c = 0x5F then 0x20 else c) s"

text \<open>\<^verbatim>\<open>s.replace(/\b\w/g, l => l.toUpperCase())\<close>: a word character is matched where
  the code unit before it is not one (or there is none). The flag says whether the previous
  code unit was a word character.\<close>

fun capitalizeWords :: "bool \<Rightarrow> jsstring \<Rightarrow> jsstring" where
  "capitalizeWords prev [] = []"
| "capitalizeWords prev (c # cs) =
     (if isWordChar c \<and> \<not> prev then toUpperCaseWordChar c else c) # capitalizeWords (isWordChar c) cs"

text \<open>A lower-casing that changes the ASCII capitals only. \<^verbatim>\<open>String.prototype.toLowerCase\<close>
  belongs to the runtime, so the functions below take it as the parameter \<open>toLowerCase\<close>;
  \<open>toLowerCaseASCII\<close> agrees with it on ASCII text and is the instance used for concrete inputs.\<close>

definition toLowerCaseASCII :: "jsstring \<Rightarrow> jsstring" where
  "toLowerCaseASCII s = map (\<lambda>c. if 0x41 \<le> c \<and> c \<le> 0x5A then c + 0x20 else c) s"

subsection \<open>Numbers\<close>

text \<open>The decimal digits of a natural number, and the exact decimal text of an integer.\<close>

definition digitChar :: "int \<Rightarrow> 16 word" where
  "digitChar d = 0x30 + of_int d"

function digits :: "int \<Rightarrow> jsstring" where
  "digits n = (if n < 10 then [digitChar n] else digits (n div 10) @ [digitChar (n mod 10)])"
  by pat_completeness auto
termination
  by (relation "measure nat") auto

declare digits.simps [simp del]

definition intToString :: "int \<Rightarrow> jsstring" where
  "intToString i = (if i < 0 then 0x2D # digits (- i) else digits i)"

text \<open>A Number that is not a fraction: not-a-number, an infinity, or a double that holds an
  integer. \<open>Finite n\<close> stands for the double nearest to \<open>n\<close> (for \<open>n\<close> itself when a double
  holds it), and \<open>Finite 0\<close> for both zeros, which are falsy and print alike.\<close>

datatype jsnumber = NaN | PosInfinity | NegInfinity | Finite int

text \<open>Rounding of a mathematical integer to the nearest double, ties to even: 53 bits of
  mantissa are kept, and a magnitude that rounds to \<open>2^1024\<close> or more is an infinity.\<close>

definition toDouble :: "int \<Rightarrow> jsnumber" where
  "toDouble v =
     (let a = \<bar>v\<bar>; e = nat (bitlen a - 53)
      in if e = 0 then Finite v
         else let q = a div 2 ^ e; r = a mod 2 ^ e; h = 2 ^ (e - 1);
                  q' = (if r > h \<or> (r = h \<and> odd q) then q + 1 else q);
                  m = q' * 2 ^ e
              in if m \<ge> 2 ^ 1024 then (if v < 0 then NegInfinity else PosInfinity)
                 else Finite (if v < 0 then - m else m))"

text \<open>
  The text of a Number, as a template literal \<^verbatim>\<open>${n}\<close> inserts it
  (\<^verbatim>\<open>Number::toString\<close>). For a positive double \<open>v\<close> that holds an integer the digits
  are those of the integer with the fewest significant digits that still rounds to \<open>v\<close>,
  the nearest to \<open>v\<close> among these, and the one with the even last digit on a tie:
  \<open>2^64\<close> prints as \<^verbatim>\<open>18446744073709552000\<close>. Below \<open>2^53\<close> this is the exact decimal
  (\<open>numberToString_safe\<close>). \<open>shortestCandidates v p\<close> are the multiples of the power of ten
  \<open>p\<close> next to \<open>v\<close> that round to \<open>v\<close>, the preferred one first; \<open>shortestDecimal\<close>
  takes the first found from the largest power down. From 22 digits on the text is in
  exponent form: \<open>10^21\<close> prints as \<^verbatim>\<open>1e+21\<close>.
\<close>

definition shortestCandidates :: "int \<Rightarrow> int \<Rightarrow> int list" where
  "shortestCandidates v p =
     (let lo = (v div p) * p; hi = lo + p;
          ordered = (if v - lo < hi - v \<or> (v - lo = hi - v \<and> even (v div p)) then [lo, hi]
                     else [hi, lo])
      in filter (\<lambda>c. toDouble c = Finite v) ordered)"

definition shortestDecimal :: "int \<Rightarrow> int" where
  "shortestDecimal v =
     (let n = length (digits v)
      in case concat (map (\<lambda>k. shortestCandidates v (10 ^ (n - k))) [1..<Suc n]) of
           [] \<Rightarrow> v
         | w # ws \<Rightarrow> w)"

definition exponentForm :: "int \<Rightarrow> jsstring" where
  "exponentForm w =
     (let ds = digits w;
          s = rev (dropWhile (\<lambda>c. c = 0x30) (rev ds))
      in take 1 s @ (if length s > 1 then 0x2E # drop 1 s else []) @ js ''e+''
         @ digits (int (length ds) - 1))"

definition positiveToString :: "int \<Rightarrow> jsstring" where
  "positiveToString v =
     (let w = shortestDecimal v in if w < 10 ^ 21 then digits w else exponentForm w)"

fun numberToString :: "jsnumber \<Rightarrow> jsstring" where
  "numberToString NaN = js ''NaN''"
| "numberToString PosInfinity = js ''Infinity''"
| "numberToString NegInfinity = js ''-Infinity''"
| "numberToString (Finite n) =
     (case toDouble n of
        NaN \<Rightarrow> js ''NaN''
      | PosInfinity \<Rightarrow> js ''Infinity''
      | NegInfinity \<Rightarrow> js ''-Infinity''
      | Finite v \<Rightarrow>
          if v = 0 then js ''0''
          else if v < 0 then 0x2D # positiveToString (- v)
          else positiveToString v)"

declare numberToString.simps(4) [simp del]

text \<open>A Number is falsy when it is not-a-number or a zero.\<close>

definition truthyNumber :: "jsnumber \<Rightarrow> bool" where
  "truthyNumber x \<longleftrightarrow> x \<noteq> NaN \<and> x \<noteq> Finite 0"

definition isStrWhiteSpace :: "16 word \<Rightarrow> bool" where
  "isStrWhiteSpace c \<longleftrightarrow>
     c \<in> {0x09, 0x0A, 0x0B, 0x0C, 0x0D, 0x20, 0xA0, 0x1680, 0x2028, 0x2029, 0x202F, 0x205F,
          0x3000, 0xFEFF} \<or> (0x2000 \<le> c \<and> c \<le> 0x200A)"

definition hexDigit :: "16 word \<Rightarrow> nat option" where
  "hexDigit c =
     (if 0x30 \<le> c \<and> c \<le> 0x39 then Some (unat c - 0x30)
      else if 0x61 \<le> c \<and> c \<le> 0x66 then Some (unat c - 0x61 + 10)
      else if 0x41 \<le> c \<and> c \<le> 0x46 then Some (unat c - 0x41 + 10)
      else None)"

definition hexValue :: "jsstring \<Rightarrow> int" where
  "hexValue z = foldl (\<lambda>acc c. 16 * acc + (case hexDigit c of Some d \<Rightarrow> int d | None \<Rightarrow> 0)) 0 z"

text \<open>\<^verbatim>\<open>parseInt(s, 16)\<close>: leading white space is skipped, then an optional sign, then an
  optional \<^verbatim>\<open>0x\<close> or \<^verbatim>\<open>0X\<close>; the longest run of hexadecimal digits that follows is
  the value, and an empty run gives \<open>NaN\<close>. (\<open>hexValue\<close> is applied to hexadecimal digits
  only.)\<close>

definition parseInt16 :: "jsstring \<Rightarrow> jsnumber" where
  "parseInt16 inputString =
     (let s = dropWhile isStrWhiteSpace inputString;
          negative = (s \<noteq> [] \<and> hd s = 0x2D);
          s1 = (if s \<noteq> [] \<and> (hd s = 0x2B \<or> hd s = 0x2D) then tl s else s);
          s2 = (if take 2 s1 = js ''0x'' \<or> take 2 s1 = js ''0X'' then drop 2 s1 else s1);
          z = takeWhile (\<lambda>c. hexDigit c \<noteq> None) s2
      in if z = [] then NaN
         else toDouble (if negative then - hexValue z else hexValue z))"

subsection \<open>Loosely typed payload leaves\<close>

text \<open>A leaf of the event payload that the source only tests for truthiness and interpolates
  into a template literal: any JSON primitive, or \<^verbatim>\<open>undefined\<close> when the key is missing.
  Numbers are integers (\<open>JNum n\<close> is the double nearest to \<open>n\<close>).\<close>

datatype jsval = JUndefined | JNull | JBool bool | JNum int | JStr jsstring

fun truthy :: "jsval \<Rightarrow> bool" where
  "truthy JUndefined = False"
| "truthy JNull = False"
| "truthy (JBool b) = b"
| "truthy (JNum n) = (n \<noteq> 0)"
| "truthy (JStr s) = (s \<noteq> [])"

text \<open>The text a template literal \<^verbatim>\<open>${v}\<close> inserts.\<close>

fun toString :: "jsval \<Rightarrow> jsstring" where
  "toString JUndefined = js ''undefined''"
| "toString JNull = js ''null''"
| "toString (JBool b) = (if b then js ''true'' else js ''false'')"
| "toString (JNum n) = numberToString (Finite n)"
| "toString (JStr s) = s"

subsection \<open>Property lookup on an object literal\<close>

text \<open>
  \<^verbatim>\<open>obj[key]\<close> on an object literal finds the literal's own entries and, failing that,
  what the literal inherits from \<^verbatim>\<open>Object.prototype\<close>: the built-in methods and, under
  \<^verbatim>\<open>__proto__\<close>, the prototype itself. All of these are truthy, and none of them has
  any of the properties (\<^verbatim>\<open>color\<close>, \<^verbatim>\<open>emoji\<close>, \<^verbatim>\<open>title\<close>,
  \<^verbatim>\<open>label\<close>, \<^verbatim>\<open>description\<close>) that the source reads from a lookup's result.
  \<open>None\<close> is \<^verbatim>\<open>undefined\<close>.
\<close>

definition objectPrototypeKeys :: "jsstring list" where
  "objectPrototypeKeys = map js
     [''constructor'', ''__defineGetter__'', ''__defineSetter__'', ''hasOwnProperty'',
      ''__lookupGetter__'', ''__lookupSetter__'', ''isPrototypeOf'', ''propertyIsEnumerable'',
      ''toString'', ''valueOf'', ''__proto__'', ''toLocaleString'']"

datatype 'a found = Own 'a | Inherited jsstring

definition getProperty :: "(jsstring \<times> 'a) list \<Rightarrow> jsstring \<Rightarrow> 'a found option" where
  "getProperty obj key =
     (case map_of obj key of
        Some v \<Rightarrow> Some (Own v)
      | None \<Rightarrow> if key \<in> set objectPrototypeKeys then Some (Inherited key) else None)"

text \<open>\<^verbatim>\<open>r.p\<close> for a lookup result \<open>r\<close> and one of the properties above.\<close>

fun readProp :: "('a \<Rightarrow> 'b) \<Rightarrow> 'a found \<Rightarrow> 'b option" where
  "readProp p (Own x) = Some (p x)"
| "readProp p (Inherited k) = None"

text \<open>\<^verbatim>\<open>${r.p}\<close> for a string property: \<^verbatim>\<open>undefined\<close> is inserted as that word.\<close>

definition interp :: "jsstring option \<Rightarrow> jsstring" where
  "interp v = (case v of None \<Rightarrow> js ''undefined'' | Some s \<Rightarrow> s)"

section \<open>The data model\<close>

text \<open>
  The context is the \<^verbatim>\<open>github.context\<close> object. Its string members come from
  environment variables and are \<^verbatim>\<open>undefined\<close> (\<open>None\<close>) when the variable is not
  set; \<^verbatim>\<open>runNumber\<close> and \<^verbatim>\<open>runId\<close> are Numbers read by \<^verbatim>\<open>parseInt\<close>:
  \<open>NaN\<close> when the variable is not set, else a double that holds an integer, or an
  infinity. The event name is a string. The payload is an
  object; each sub-structure is an object when present; the members on which the source calls
  string methods are strings when present, the others are any \<open>jsval\<close>.
\<close>

record repository =
  full_name :: "jsstring option"
  html_url :: "jsstring option"

record review =
  review_state :: jsval

record deployment_status =
  deployment_status_state :: jsval

record pull_request =
  pr_number :: jsval
  pr_title :: jsval
  pr_html_url :: jsval

record commit =
  message :: "jsstring option"

record release =
  release_tag_name :: jsval
  release_name :: jsval
  release_html_url :: jsval

record issue =
  issue_number :: jsval
  issue_title :: jsval
  issue_html_url :: jsval

record payload =
  payload_repository :: "repository option"
  payload_action :: jsval
  payload_review :: "review option"
  payload_ref_type :: jsval
  payload_deployment_status :: "deployment_status option"
  payload_pull_request :: "pull_request option"
  payload_commits :: "commit list option"
  payload_release :: "release option"
  payload_issue :: "issue option"

record github_context =
  eventName :: jsstring
  payload :: payload
  workflow :: "jsstring option"
  runNumber :: jsnumber
  runId :: jsnumber
  actor :: "jsstring option"
  ref :: "jsstring option"
  sha :: "jsstring option"

text \<open>An entry of the event table, an entry of the status table, and the embed that is built.
  A color read from a lookup result may be \<^verbatim>\<open>undefined\<close> (\<open>None\<close>).\<close>

record event_meta =
  meta_emoji :: jsstring
  meta_title :: jsstring
  meta_description :: jsstring
  meta_color :: jsnumber

record status_style =
  style_color :: jsnumber
  style_emoji :: jsstring
  style_label :: jsstring

record field =
  name :: jsstring
  "value" :: jsstring
  inline :: bool

record embed =
  title :: jsstring
  description :: jsstring
  color :: "jsnumber option"
  embed_fields :: "field list"
  timestamp :: jsstring
  footer_text :: jsstring

datatype js_error = TypeError

section \<open>\<^verbatim>\<open>getEventMetadata\<close>\<close>

text \<open>\<^verbatim>\<open>payload.review?.state\<close> and \<^verbatim>\<open>payload.deployment_status?.state\<close>.\<close>

definition reviewState :: "payload \<Rightarrow> jsval" where
  "reviewState p = (case payload_review p of None \<Rightarrow> JUndefined | Some r \<Rightarrow> review_state r)"

definition deploymentStatusState :: "payload \<Rightarrow> jsval" where
  "deploymentStatusState p =
     (case payload_deployment_status p of None \<Rightarrow> JUndefined | Some d \<Rightarrow> deployment_status_state d)"

text \<open>\<^verbatim>\<open>v ? `${prefix}${v}${suffix}` : other\<close>.\<close>

definition describe :: "jsval \<Rightarrow> jsstring \<Rightarrow> jsstring \<Rightarrow> jsstring \<Rightarrow> jsstring" where
  "describe v prefix suffix other = (if truthy v then prefix @ toString v @ suffix else other)"

definition metadata :: "payload \<Rightarrow> (jsstring \<times> event_meta) list" where
  "metadata p =
    [(js ''push'',
      \<lparr>meta_emoji = [0xD83D, 0xDCE4], meta_title = js ''Push'',
       meta_description = js ''Code pushed to repository'', meta_color = Finite 0x0366d6\<rparr>),
     (js ''pull_request'',
      \<lparr>meta_emoji = [0xD83D, 0xDD00], meta_title = js ''Pull Request'',
       meta_description = describe (payload_action p) (js ''PR '') [] (js ''Pull Request event''),
       meta_color = Finite 0x6f42c1\<rparr>),
     (js ''pull_request_review'',
      \<lparr>meta_emoji = [0xD83D, 0xDC40], meta_title = js ''PR Review'',
       meta_description = describe (reviewState p) (js ''Review '') [] (js ''Pull Request reviewed''),
       meta_color = Finite 0x6f42c1\<rparr>),
     (js ''release'',
      \<lparr>meta_emoji = [0xD83D, 0xDE80], meta_title = js ''Release'',
       meta_description = describe (payload_action p) (js ''Release '') [] (js ''Release event''),
       meta_color = Finite 0x17a2b8\<rparr>),
     (js ''issues'',
      \<lparr>meta_emoji = [0xD83D, 0xDC1B], meta_title = js ''Issue'',
       meta_description = describe (payload_action p) (js ''Issue '') [] (js ''Issue event''),
       meta_color = Finite 0xfd7e14\<rparr>),
     (js ''issue_comment'',
      \<lparr>meta_emoji = [0xD83D, 0xDCAC], meta_title = js ''Issue Comment'',
       meta_description = js ''Comment on issue'', meta_color = Finite 0xfd7e14\<rparr>),
     (js ''workflow_dispatch'',
      \<lparr>meta_emoji = [0x25B6, 0xFE0F], meta_title = js ''Manual Trigger'',
       meta_description = js ''Workflow manually triggered'', meta_color = Finite 0x0366d6\<rparr>),
     (js ''schedule'',
      \<lparr>meta_emoji = [0x23F0], meta_title = js ''Scheduled Run'',
       meta_description = js ''Workflow triggered by schedule'', meta_color = Finite 0x0366d6\<rparr>),
     (js ''create'',
      \<lparr>meta_emoji = [0x2728], meta_title = js ''Branch/Tag Created'',
       meta_description = describe (payload_ref_type p) [] (js '' created'') (js ''Reference created''),
       meta_color = Finite 0x28a745\<rparr>),
     (js ''delete'',
      \<lparr>meta_emoji = [0xD83D, 0xDDD1, 0xFE0F], meta_title = js ''Branch/Tag Deleted'',
       meta_description = describe (payload_ref_type p) [] (js '' deleted'') (js ''Reference deleted''),
       meta_color = Finite 0x6c757d\<rparr>),
     (js ''deployment'',
      \<lparr>meta_emoji = [0xD83D, 0xDEA2], meta_title = js ''Deployment'',
       meta_description = js ''Deployment event'', meta_color = Finite 0x17a2b8\<rparr>),
     (js ''deployment_status'',
      \<lparr>meta_emoji = [0xD83D, 0xDCCA], meta_title = js ''Deployment Status'',
       meta_description =
         describe (deploymentStatusState p) (js ''Deployment '') [] (js ''Deployment status update''),
       meta_color = Finite 0x17a2b8\<rparr>),
     (js ''workflow_run'',
      \<lparr>meta_emoji = [0xD83D, 0xDD04], meta_title = js ''Workflow Run'',
       meta_description = describe (payload_action p) (js ''Workflow '') [] (js ''Workflow run event''),
       meta_color = Finite 0x0366d6\<rparr>)]"

definition getEventMetadata :: "jsstring \<Rightarrow> payload \<Rightarrow> event_meta found" where
  "getEventMetadata evName p =
     (case getProperty (metadata p) evName of
        Some m \<Rightarrow> m
      | None \<Rightarrow>
          Own \<lparr>meta_emoji = [0xD83D, 0xDD14],
               meta_title = capitalizeWords False (underscoresToSpaces evName),
               meta_description = js ''GitHub event triggered'',
               meta_color = Finite 0x0366d6\<rparr>)"

section \<open>\<^verbatim>\<open>getStatusStyling\<close>\<close>

definition styling_success :: status_style where
  "styling_success = \<lparr>style_color = Finite 0x28a745, style_emoji = [0x2705], style_label = js ''Success''\<rparr>"

definition styling :: "(jsstring \<times> status_style) list" where
  "styling =
    [(js ''success'', styling_success),
     (js ''failure'',
      \<lparr>style_color = Finite 0xdc3545, style_emoji = [0x274C], style_label = js ''Failed''\<rparr>),
     (js ''cancelled'',
      \<lparr>style_color = Finite 0x6c757d, style_emoji = [0x26A0, 0xFE0F], style_label = js ''Cancelled''\<rparr>),
     (js ''skipped'',
      \<lparr>style_color = Finite 0xffc107, style_emoji = [0x23ED, 0xFE0F], style_label = js ''Skipped''\<rparr>)]"

definition getStatusStyling :: "(jsstring \<Rightarrow> jsstring) \<Rightarrow> jsstring \<Rightarrow> status_style found" where
  "getStatusStyling toLowerCase status =
     (case getProperty styling (toLowerCase status) of
        Some s \<Rightarrow> s
      | None \<Rightarrow> Own styling_success)"

section \<open>\<^verbatim>\<open>buildEmbed\<close>\<close>

text \<open>
  The three overrides are the strings that \<^verbatim>\<open>core.getInput\<close> returns: an input that
  was not given is the empty string. The current time of \<^verbatim>\<open>new Date().toISOString()\<close>
  is the parameter \<open>now\<close>.
\<close>

subsection \<open>The constants read from the context (lines 193 to 200)\<close>

definition repoUrl :: "github_context \<Rightarrow> jsstring" where
  "repoUrl context =
     orDefault (case payload_repository (payload context) of None \<Rightarrow> None | Some r \<Rightarrow> html_url r) []"

definition repoName :: "github_context \<Rightarrow> jsstring" where
  "repoName context =
     orDefault (case payload_repository (payload context) of None \<Rightarrow> None | Some r \<Rightarrow> full_name r)
       (js ''Unknown Repository'')"

definition workflowName :: "github_context \<Rightarrow> jsstring" where
  "workflowName context = orDefault (workflow context) (js ''GitHub Actions'')"

definition actorName :: "github_context \<Rightarrow> jsstring" where
  "actorName context = orDefault (actor context) (js ''Unknown'')"

definition refName :: "github_context \<Rightarrow> jsstring" where
  "refName context = orDefault (ref context) (js ''Unknown'')"

definition commitSha :: "github_context \<Rightarrow> jsstring" where
  "commitSha context = orDefault (sha context) (js ''Unknown'')"

subsection \<open>Color, title and description (lines 208 to 239)\<close>

definition embedColor ::
  "(jsstring \<Rightarrow> jsstring) \<Rightarrow> jsstring \<Rightarrow> jsstring \<Rightarrow> status_style found \<Rightarrow> event_meta found
     \<Rightarrow> jsnumber option" where
  "embedColor toLowerCase jobStatus customColor statusStyle eventMeta =
     (if customColor \<noteq> [] then Some (parseInt16 customColor)
      else if toLowerCase jobStatus \<noteq> js ''success'' then readProp style_color statusStyle
      else readProp meta_color eventMeta)"

definition embedTitle ::
  "(jsstring \<Rightarrow> jsstring) \<Rightarrow> jsstring \<Rightarrow> jsstring \<Rightarrow> status_style found \<Rightarrow> event_meta found
     \<Rightarrow> jsstring" where
  "embedTitle toLowerCase jobStatus customTitle statusStyle eventMeta =
     (if customTitle \<noteq> [] then customTitle
      else if toLowerCase jobStatus \<noteq> js ''success'' then
        interp (readProp style_emoji statusStyle) @ js '' '' @ interp (readProp meta_emoji eventMeta)
          @ js '' '' @ interp (readProp meta_title eventMeta) @ js '' ''
          @ interp (readProp style_label statusStyle)
      else interp (readProp meta_emoji eventMeta) @ js '' '' @ interp (readProp meta_title eventMeta))"

text \<open>\<^verbatim>\<open>statusStyle.label.toLowerCase()\<close> raises a TypeError when the label is
  \<^verbatim>\<open>undefined\<close>.\<close>

definition embedDescription ::
  "(jsstring \<Rightarrow> jsstring) \<Rightarrow> jsstring \<Rightarrow> jsstring \<Rightarrow> jsstring \<Rightarrow> status_style found
     \<Rightarrow> event_meta found \<Rightarrow> js_error + jsstring" where
  "embedDescription toLowerCase jobStatus customDescription wfName statusStyle eventMeta =
     (if customDescription \<noteq> [] then Inr customDescription
      else if toLowerCase jobStatus \<noteq> js ''success'' then
        (case readProp style_label statusStyle of
           None \<Rightarrow> Inl TypeError
         | Some label \<Rightarrow>
             Inr (js ''**'' @ wfName @ js ''** workflow '' @ toLowerCase label @ [0x20, 0x2022, 0x20]
                  @ interp (readProp meta_description eventMeta)))
      else Inr (js ''**'' @ wfName @ js ''** '' @ [0x2022, 0x20]
                @ interp (readProp meta_description eventMeta)))"

subsection \<open>The fields (lines 241 to 352)\<close>

definition repositoryField :: "github_context \<Rightarrow> field" where
  "repositoryField context =
     (if repoUrl context \<noteq> [] then
        \<lparr>name = [0xD83D, 0xDCE6] @ js '' Repository'',
         value = js ''['' @ repoName context @ js ''](''  @ repoUrl context @ js '')'',
         inline = True\<rparr>
      else
        \<lparr>name = [0xD83D, 0xDCE6] @ js '' Repository'', value = repoName context, inline = True\<rparr>)"

definition eventField :: "github_context \<Rightarrow> field" where
  "eventField context =
     \<lparr>name = [0xD83D, 0xDD00] @ js '' Event'', value = eventName context, inline = True\<rparr>"

definition actorField :: "github_context \<Rightarrow> field" where
  "actorField context =
     \<lparr>name = [0xD83D, 0xDC64] @ js '' Actor'', value = actorName context, inline = True\<rparr>"

definition refField :: "github_context \<Rightarrow> field" where
  "refField context =
     \<lparr>name = [0xD83C, 0xDF3F] @ js '' Ref'',
      value = replaceFirst (js ''refs/tags/'') [] (replaceFirst (js ''refs/heads/'') [] (refName context)),
      inline = True\<rparr>"

definition runNumberField :: "github_context \<Rightarrow> field" where
  "runNumberField context =
     \<lparr>name = [0xD83D, 0xDD22] @ js '' Run Number'',
      value = js ''#'' @ (if truthyNumber (runNumber context)
                         then numberToString (runNumber context) else js ''N/A''),
      inline = True\<rparr>"

definition commitFields :: "github_context \<Rightarrow> field list" where
  "commitFields context =
     (if commitSha context \<noteq> js ''Unknown'' \<and> repoUrl context \<noteq> [] then
        [\<lparr>name = [0xD83D, 0xDCDD] @ js '' Commit'',
          value = js ''['' @ substring0 7 (commitSha context) @ js ''](''  @ repoUrl context
                  @ js ''/commit/'' @ commitSha context @ js '')'',
          inline = True\<rparr>]
      else if commitSha context \<noteq> js ''Unknown'' then
        [\<lparr>name = [0xD83D, 0xDCDD] @ js '' Commit'', value = substring0 7 (commitSha context),
          inline = True\<rparr>]
      else [])"

definition pullRequestFields :: "github_context \<Rightarrow> field list" where
  "pullRequestFields context =
     (if eventName context = js ''pull_request'' then
        (case payload_pull_request (payload context) of
           None \<Rightarrow> []
         | Some pr \<Rightarrow>
             [\<lparr>name = [0xD83D, 0xDD17] @ js '' Pull Request'',
               value = js ''[#'' @ toString (pr_number pr) @ js '' - '' @ toString (pr_title pr)
                       @ js ''](''  @ toString (pr_html_url pr) @ js '')'',
               inline = False\<rparr>])
      else [])"

text \<open>One line of the commit list: \<^verbatim>\<open>c.message?.split('\n')[0] || 'No message'\<close>, cut to
  100 code units, behind a bullet.\<close>

definition commitLine :: "commit \<Rightarrow> jsstring" where
  "commitLine c =
     [0x2022, 0x20] @ substring0 100 (orDefault (map_option firstLine (message c)) (js ''No message''))"

definition commitMessages :: "commit list \<Rightarrow> jsstring" where
  "commitMessages commits = join [0x0A] (map commitLine (take 3 commits))"

definition pushFields :: "github_context \<Rightarrow> field list" where
  "pushFields context =
     (if eventName context = js ''push'' then
        (case payload_commits (payload context) of
           None \<Rightarrow> []
         | Some commits \<Rightarrow>
             if length commits > 0 \<and> commitMessages commits \<noteq> [] then
               [\<lparr>name = [0xD83D, 0xDCCB] @ js '' Recent Commits'', value = commitMessages commits,
                 inline = False\<rparr>]
             else [])
      else [])"

definition releaseFields :: "github_context \<Rightarrow> field list" where
  "releaseFields context =
     (if eventName context = js ''release'' then
        (case payload_release (payload context) of
           None \<Rightarrow> []
         | Some release \<Rightarrow>
             [\<lparr>name = [0xD83D, 0xDE80] @ js '' Release'',
               value = js ''['' @ toString (release_tag_name release) @ js '' - ''
                       @ toString (release_name release) @ js ''](''
                       @ toString (release_html_url release) @ js '')'',
               inline = False\<rparr>])
      else [])"

definition issueFields :: "github_context \<Rightarrow> field list" where
  "issueFields context =
     (if eventName context = js ''issues'' then
        (case payload_issue (payload context) of
           None \<Rightarrow> []
         | Some issue \<Rightarrow>
             [\<lparr>name = [0xD83D, 0xDC1B] @ js '' Issue'',
               value = js ''[#'' @ toString (issue_number issue) @ js '' - ''
                       @ toString (issue_title issue) @ js ''](''
                       @ toString (issue_html_url issue) @ js '')'',
               inline = False\<rparr>])
      else [])"

text \<open>What the block under \<^verbatim>\<open>if (includeDetails)\<close> pushes, in order.\<close>

definition detailFields :: "github_context \<Rightarrow> field list" where
  "detailFields context =
     [repositoryField context, eventField context, actorField context, refField context,
      runNumberField context]
     @ commitFields context @ pullRequestFields context @ pushFields context
     @ releaseFields context @ issueFields context"

text \<open>\<^verbatim>\<open>if (runId && repoUrl)\<close>, and the link with \<^verbatim>\<open>${runId}\<close> in it.\<close>

definition runLinkFields :: "github_context \<Rightarrow> field list" where
  "runLinkFields context =
     (if truthyNumber (runId context) \<and> repoUrl context \<noteq> [] then
        [\<lparr>name = [0xD83D, 0xDD17] @ js '' Workflow Run'',
          value = js ''[View Details]('' @ repoUrl context @ js ''/actions/runs/''
                  @ numberToString (runId context) @ js '')'',
          inline = False\<rparr>]
      else [])"

subsection \<open>Truncation and the result (lines 354 to 370)\<close>

definition validateField :: "field \<Rightarrow> field" where
  "validateField f =
     \<lparr>name = substring0 256 (name f), value = substring0 1024 (value f), inline = inline f\<rparr>"

definition buildEmbed ::
  "(jsstring \<Rightarrow> jsstring) \<Rightarrow> jsstring \<Rightarrow> github_context \<Rightarrow> jsstring \<Rightarrow> jsstring \<Rightarrow> jsstring
     \<Rightarrow> jsstring \<Rightarrow> bool \<Rightarrow> js_error + embed" where
  "buildEmbed toLowerCase now context jobStatus customTitle customDescription customColor
     includeDetails =
     (let eventMeta = getEventMetadata (eventName context) (payload context);
          statusStyle = getStatusStyling toLowerCase jobStatus
      in case embedDescription toLowerCase jobStatus customDescription (workflowName context)
                statusStyle eventMeta of
           Inl e \<Rightarrow> Inl e
         | Inr descr \<Rightarrow>
             Inr \<lparr>title = substring0 256
                            (embedTitle toLowerCase jobStatus customTitle statusStyle eventMeta),
                  description = substring0 4096 descr,
                  color = embedColor toLowerCase jobStatus customColor statusStyle eventMeta,
                  embed_fields =
                    map validateField
                      ((if includeDetails then detailFields context else []) @ runLinkFields context),
                  timestamp = now,
                  footer_text =
                    substring0 2048 (js ''GitHub Actions '' @ [0x2022, 0x20] @ workflowName context)\<rparr>)"

section \<open>\<^verbatim>\<open>sendDiscordMessage\<close>\<close>

subsection \<open>Buffers and their text\<close>

text \<open>
  A chunk of the response is a Buffer, a sequence of bytes. \<^verbatim>\<open>responseData += chunk\<close>
  appends the text of that one chunk, \<^verbatim>\<open>chunk.toString()\<close>: its bytes decoded as UTF-8,
  where every maximal ill-formed part, also a character cut short by the end of the chunk,
  becomes one replacement character \<open>U+FFFD\<close>. \<open>leadLength\<close> is the length of the sequence
  that a byte starts (0 for a byte that starts none), \<open>codeUnits\<close> the UTF-16 form of a
  code point.
\<close>

type_synonym buffer = "8 word list"

definition ascii :: "string \<Rightarrow> buffer" where
  "ascii s = map of_char s"

definition isContinuation :: "8 word \<Rightarrow> bool" where
  "isContinuation b \<longleftrightarrow> 0x80 \<le> b \<and> b \<le> 0xBF"

definition leadLength :: "8 word \<Rightarrow> nat" where
  "leadLength b =
     (if b < 0x80 then 1
      else if 0xC2 \<le> b \<and> b \<le> 0xDF then 2
      else if 0xE0 \<le> b \<and> b \<le> 0xEF then 3
      else if 0xF0 \<le> b \<and> b \<le> 0xF4 then 4
      else 0)"

definition secondByteOk :: "8 word \<Rightarrow> 8 word \<Rightarrow> bool" where
  "secondByteOk b c \<longleftrightarrow>
     (if b = 0xE0 then 0xA0 \<le> c \<and> c \<le> 0xBF
      else if b = 0xED then 0x80 \<le> c \<and> c \<le> 0x9F
      else if b = 0xF0 then 0x90 \<le> c \<and> c \<le> 0xBF
      else if b = 0xF4 then 0x80 \<le> c \<and> c \<le> 0x8F
      else isContinuation c)"

definition codeUnits :: "nat \<Rightarrow> jsstring" where
  "codeUnits cp =
     (if cp < 0x10000 then [of_nat cp]
      else [of_nat (0xD800 + (cp - 0x10000) div 0x400), of_nat (0xDC00 + (cp - 0x10000) mod 0x400)])"

fun utf8Decode :: "buffer \<Rightarrow> jsstring" where
  "utf8Decode [] = []"
| "utf8Decode (b # bs) =
     (if leadLength b = 1 then ucast b # utf8Decode bs
      else if leadLength b = 2 then
        (case bs of
           [] \<Rightarrow> [0xFFFD]
         | c # cs \<Rightarrow>
             if isContinuation c
             then codeUnits ((unat b - 0xC0) * 0x40 + (unat c - 0x80)) @ utf8Decode cs
             else 0xFFFD # utf8Decode (c # cs))
      else if leadLength b = 3 then
        (case bs of
           [] \<Rightarrow> [0xFFFD]
         | c # cs \<Rightarrow>
             if secondByteOk b c then
               (case cs of
                  [] \<Rightarrow> [0xFFFD]
                | d # ds \<Rightarrow>
                    if isContinuation d
                    then codeUnits ((unat b - 0xE0) * 0x1000 + (unat c - 0x80) * 0x40
                                    + (unat d - 0x80)) @ utf8Decode ds
                    else 0xFFFD # utf8Decode (d # ds))
             else 0xFFFD # utf8Decode (c # cs))
      else if leadLength b = 4 then
        (case bs of
           [] \<Rightarrow> [0xFFFD]
         | c # cs \<Rightarrow>
             if secondByteOk b c then
               (case cs of
                  [] \<Rightarrow> [0xFFFD]
                | d # ds \<Rightarrow>
                    if isContinuation d then
                      (case ds of
                         [] \<Rightarrow> [0xFFFD]
                       | f # fs \<Rightarrow>
                           if isContinuation f
                           then codeUnits ((unat b - 0xF0) * 0x40000 + (unat c - 0x80) * 0x1000
                                           + (unat d - 0x80) * 0x40 + (unat f - 0x80))
                                @ utf8Decode fs
                           else 0xFFFD # utf8Decode (f # fs))
                    else 0xFFFD # utf8Decode (d # ds))
             else 0xFFFD # utf8Decode (c # cs))
      else 0xFFFD # utf8Decode bs)"

declare utf8Decode.simps(2) [simp del]

text \<open>Well-formed UTF-8: the bytes are whole characters, one after the other.\<close>

fun wellFormedUtf8 :: "buffer \<Rightarrow> bool" where
  "wellFormedUtf8 [] = True"
| "wellFormedUtf8 (b # bs) =
     (if leadLength b = 1 then wellFormedUtf8 bs
      else if leadLength b = 2 then
        (case bs of c # cs \<Rightarrow> isContinuation c \<and> wellFormedUtf8 cs | [] \<Rightarrow> False)
      else if leadLength b = 3 then
        (case bs of
           c # d # ds \<Rightarrow> secondByteOk b c \<and> isContinuation d \<and> wellFormedUtf8 ds
         | _ \<Rightarrow> False)
      else if leadLength b = 4 then
        (case bs of
           c # d # f # fs \<Rightarrow>
             secondByteOk b c \<and> isContinuation d \<and> isContinuation f \<and> wellFormedUtf8 fs
         | _ \<Rightarrow> False)
      else False)"


declare wellFormedUtf8.simps(2) [simp del]

subsection \<open>The request and how the promise settles\<close>

text \<open>
  The URL parser, the JSON serialiser and the network belong to the runtime and are
  parameters: \<open>parseURL\<close> is \<^verbatim>\<open>new URL\<close> (\<open>None\<close> when it throws), \<open>stringify\<close> is
  \<^verbatim>\<open>JSON.stringify\<close>, and \<open>network\<close> gives what the one request of an invocation
  meets. That is either no response, with the cause of the request's \<^verbatim>\<open>error\<close> event if
  there is one, or a response with its status code and the events that follow it, in order:
  \<^verbatim>\<open>data\<close> with a chunk, \<^verbatim>\<open>end\<close>, or an \<^verbatim>\<open>error\<close> of the request. The result
  is the state of the promise once these events have passed: a promise settles once, and it
  stays pending when nothing resolves or rejects it.
\<close>

record url =
  hostname :: jsstring
  port :: jsstring
  pathname :: jsstring
  search :: jsstring

record request_options =
  options_hostname :: jsstring
  options_port :: jsval
  options_path :: jsstring
  options_method :: jsstring
  header_content_type :: jsstring
  header_content_length :: nat

datatype 'c response_event = DataEvent buffer | EndEvent | ErrorEvent 'c

datatype 'c exchange = Response int "'c response_event list" | NoResponse "'c option"

datatype 'c rejection = InvalidURL | Error jsstring | Cause 'c

datatype 'c promise = Pending | Resolved | Rejected "'c rejection"

text \<open>The length of \<^verbatim>\<open>Buffer.from(data, 'utf8')\<close>: a surrogate pair is four bytes, a
  lone surrogate is written as the three bytes of the replacement character.\<close>

definition utf8UnitLength :: "16 word \<Rightarrow> nat" where
  "utf8UnitLength c = (if c < 0x80 then 1 else if c < 0x800 then 2 else 3)"

fun utf8Length :: "jsstring \<Rightarrow> nat" where
  "utf8Length [] = 0"
| "utf8Length [c] = utf8UnitLength c"
| "utf8Length (c # d # cs) =
     (if 0xD800 \<le> c \<and> c \<le> 0xDBFF \<and> 0xDC00 \<le> d \<and> d \<le> 0xDFFF then 4 + utf8Length cs
      else utf8UnitLength c + utf8Length (d # cs))"

text \<open>The handler of the response's \<^verbatim>\<open>end\<close> event (lines 35 to 42).\<close>

definition onEnd :: "int \<Rightarrow> jsstring \<Rightarrow> 'c promise" where
  "onEnd statusCode responseData =
     (if statusCode \<ge> 200 \<and> statusCode < 300 then Resolved
      else Rejected (Error (js ''Discord webhook returned status ''
                            @ numberToString (Finite statusCode) @ js '': '' @ responseData)))"

text \<open>The events after the response callback has run (lines 28 to 47): \<^verbatim>\<open>data\<close> appends
  to \<^verbatim>\<open>responseData\<close>, \<^verbatim>\<open>end\<close> and \<^verbatim>\<open>error\<close> settle the promise, and what
  comes after that changes nothing.\<close>

fun responseEvents :: "int \<Rightarrow> jsstring \<Rightarrow> 'c response_event list \<Rightarrow> 'c promise" where
  "responseEvents statusCode responseData [] = Pending"
| "responseEvents statusCode responseData (DataEvent chunk # events) =
     responseEvents statusCode (responseData @ utf8Decode chunk) events"
| "responseEvents statusCode responseData (EndEvent # events) = onEnd statusCode responseData"
| "responseEvents statusCode responseData (ErrorEvent err # events) = Rejected (Cause err)"

definition requestOptions :: "url \<Rightarrow> jsstring \<Rightarrow> request_options" where
  "requestOptions u data =
     \<lparr>options_hostname = hostname u,
      options_port = (if port u \<noteq> [] then JStr (port u) else JNum 443),
      options_path = pathname u @ search u,
      options_method = js ''POST'',
      header_content_type = js ''application/json'',
      header_content_length = utf8Length data\<rparr>"

definition sendDiscordMessage ::
  "(jsstring \<Rightarrow> url option) \<Rightarrow> ('p \<Rightarrow> jsstring) \<Rightarrow> (request_options \<Rightarrow> jsstring \<Rightarrow> 'c exchange)
     \<Rightarrow> jsstring \<Rightarrow> 'p \<Rightarrow> 'c promise" where
  "sendDiscordMessage parseURL stringify network webhookUrl body =
     (case parseURL webhookUrl of
        None \<Rightarrow> Rejected InvalidURL
      | Some u \<Rightarrow>
          (case network (requestOptions u (stringify body)) (stringify body) of
             Response statusCode events \<Rightarrow> responseEvents statusCode [] events
           | NoResponse None \<Rightarrow> Pending
           | NoResponse (Some err) \<Rightarrow> Rejected (Cause err)))"

section \<open>\<^verbatim>\<open>buildEmbed\<close>, statement by statement\<close>

text \<open>
  What a call of \<^verbatim>\<open>buildEmbed\<close> does to the objects of the program and to the outside.
  A \<open>world\<close> holds the context object, with everything that is reachable from it; the arrays
  of fields that exist, an array being named by its place in \<open>fieldArrays\<close>; the instant that
  the clock shows; and the record of what the program has done to the outside so far: read
  the clock, written a line to the log (\<^verbatim>\<open>core.info\<close> and its kin), sent a request.
  The status and the overrides are strings and a boolean, which no statement can change, so
  they stay arguments.
\<close>

datatype interaction = ClockRead | Logged jsstring | Requested request_options jsstring

record world =
  contextObject :: github_context
  fieldArrays :: "field list list"
  clock :: jsstring
  interactions :: "interaction list"

text \<open>
  The operations that the statements of \<^verbatim>\<open>buildEmbed\<close> use: reading the context object
  (line 193 and every later read of a property of it), \<^verbatim>\<open>[]\<close>, which creates an array
  (line 242), \<^verbatim>\<open>push\<close>, which changes the array it is called on, the reading of an array
  by \<^verbatim>\<open>map\<close> (line 355), and \<^verbatim>\<open>new Date().toISOString()\<close> (line 366).
  \<^verbatim>\<open>slice\<close>, \<^verbatim>\<open>map\<close>, \<^verbatim>\<open>join\<close>, \<^verbatim>\<open>split\<close>, \<^verbatim>\<open>replace\<close>, \<^verbatim>\<open>substring\<close>
  and \<^verbatim>\<open>toLowerCase\<close> return a new value and leave the one they are called on as it is.
\<close>

definition readContext :: "(world, github_context) state" where
  "readContext = State (\<lambda>w. (contextObject w, w))"

definition newArray :: "(world, nat) state" where
  "newArray = State (\<lambda>w. (length (fieldArrays w), w\<lparr>fieldArrays := fieldArrays w @ [[]]\<rparr>))"

definition push :: "nat \<Rightarrow> field \<Rightarrow> (world, unit) state" where
  "push a f = State (\<lambda>w. ((), w\<lparr>fieldArrays := (fieldArrays w)[a := fieldArrays w ! a @ [f]]\<rparr>))"

text \<open>A conditional statement whose branches push: the fields it pushes, pushed in turn.\<close>

fun pushEach :: "nat \<Rightarrow> field list \<Rightarrow> (world, unit) state" where
  "pushEach a [] = State_Monad.return ()"
| "pushEach a (f # fs) = do { push a f; pushEach a fs }"

definition readArray :: "nat \<Rightarrow> (world, field list) state" where
  "readArray a = State (\<lambda>w. (fieldArrays w ! a, w))"

definition toISOStringNow :: "(world, jsstring) state" where
  "toISOStringNow = State (\<lambda>w. (clock w, w\<lparr>interactions := interactions w @ [ClockRead]\<rparr>))"

text \<open>
  The body, lines 193 to 370. The description is evaluated before the array is created, so
  a call that raises (line 235) has created nothing; the clock is read last, while the
  returned object is put together.
\<close>

definition buildEmbedRun ::
  "(jsstring \<Rightarrow> jsstring) \<Rightarrow> jsstring \<Rightarrow> jsstring \<Rightarrow> jsstring \<Rightarrow> jsstring \<Rightarrow> bool
     \<Rightarrow> (world, js_error + embed) state" where
  "buildEmbedRun toLowerCase jobStatus customTitle customDescription customColor includeDetails =
     do {
       context \<leftarrow> readContext;
       let eventMeta = getEventMetadata (eventName context) (payload context);
       let statusStyle = getStatusStyling toLowerCase jobStatus;
       let col = embedColor toLowerCase jobStatus customColor statusStyle eventMeta;
       let ttl = embedTitle toLowerCase jobStatus customTitle statusStyle eventMeta;
       case embedDescription toLowerCase jobStatus customDescription (workflowName context)
              statusStyle eventMeta of
         Inl err \<Rightarrow> State_Monad.return (Inl err)
       | Inr descr \<Rightarrow>
           do {
             fields \<leftarrow> newArray;
             (if includeDetails then
                do {
                  push fields (repositoryField context);
                  push fields (eventField context);
                  push fields (actorField context);
                  push fields (refField context);
                  push fields (runNumberField context);
                  pushEach fields (commitFields context);
                  pushEach fields (pullRequestFields context);
                  pushEach fields (pushFields context);
                  pushEach fields (releaseFields context);
                  pushEach fields (issueFields context)
                }
              else State_Monad.return ());
             pushEach fields (runLinkFields context);
             pushed \<leftarrow> readArray fields;
             let validatedFields = map validateField pushed;
             instant \<leftarrow> toISOStringNow;
             State_Monad.return
               (Inr \<lparr>title = substring0 256 ttl,
                     description = substring0 4096 descr,
                     color = col,
                     embed_fields = validatedFields,
                     timestamp = instant,
                     footer_text =
                       substring0 2048
                         (js ''GitHub Actions '' @ [0x2022, 0x20] @ workflowName context)\<rparr>)
           }
     }"

section \<open>Example inputs\<close>

text \<open>A push of five commits to the main branch, run 42 of the workflow \<^verbatim>\<open>CI\<close>.\<close>

definition example_context :: github_context where
  "example_context =
     \<lparr>eventName = js ''push'',
      payload =
        \<lparr>payload_repository =
           Some \<lparr>full_name = Some (js ''octo/repo''), html_url = Some (js ''https://x/octo/repo'')\<rparr>,
         payload_action = JUndefined, payload_review = None, payload_ref_type = JUndefined,
         payload_deployment_status = None, payload_pull_request = None,
         payload_commits =
           Some [\<lparr>message = Some (js ''one'' @ [0x0A] @ js ''body'')\<rparr>, \<lparr>message = Some (js ''two'')\<rparr>,
                 \<lparr>message = Some (js ''three'')\<rparr>, \<lparr>message = Some (js ''four'')\<rparr>,
                 \<lparr>message = Some (js ''five'')\<rparr>],
         payload_release = None, payload_issue = None\<rparr>,
      workflow = Some (js ''CI''), runNumber = Finite 7, runId = Finite 42, actor = Some (js ''octocat''),
      ref = Some (js ''refs/heads/main''), sha = Some (js ''0123456789abcdef'')\<rparr>"

text \<open>The same push with a single commit, whose message is empty.\<close>

definition empty_message_context :: github_context where
  "empty_message_context =
     example_context\<lparr>payload := (payload example_context)\<lparr>payload_commits := Some [\<lparr>message = Some []\<rparr>]\<rparr>\<rparr>"

text \<open>A webhook address, and a runtime in which that address parses and every POST is answered
  with status 500 and the body \<^verbatim>\<open>oops\<close>, received in two chunks and ended.\<close>

definition example_url :: url where
  "example_url = \<lparr>hostname = js ''discord.com'', port = [], pathname = js ''/api/webhooks/1/t'', search = []\<rparr>"

definition example_parseURL :: "jsstring \<Rightarrow> url option" where
  "example_parseURL w = (if w = js ''https://discord.com/api/webhooks/1/t'' then Some example_url else None)"

definition example_stringify :: "unit \<Rightarrow> jsstring" where
  "example_stringify b = js ''{}''"

definition example_network :: "request_options \<Rightarrow> jsstring \<Rightarrow> unit exchange" where
  "example_network opts data =
     (if options_method opts = js ''POST''
      then Response 500 [DataEvent (ascii ''oo''), DataEvent (ascii ''ps''), EndEvent]
      else NoResponse (Some ()))"

text \<open>A network on which the response with status 500 and the body \<^verbatim>\<open>oops\<close> arrives but
  never ends, and one on which the two bytes of the body \<^verbatim>\<open>C3 A9\<close> (an e with acute
  accent) arrive in two chunks.\<close>

definition stalled_network :: "request_options \<Rightarrow> jsstring \<Rightarrow> unit exchange" where
  "stalled_network opts data = Response 500 [DataEvent (ascii ''oops'')]"

definition split_network :: "request_options \<Rightarrow> jsstring \<Rightarrow> unit exchange" where
  "split_network opts data = Response 500 [DataEvent [0xC3], DataEvent [0xA9], EndEvent]"

text \<open>
  Two worlds with the example context: one with no array and nothing done yet; one a second
  later, in which an array exists and a line has been logged.
\<close>

definition example_world :: world where
  "example_world =
     \<lparr>contextObject = example_context, fieldArrays = [],
      clock = js ''2026-11-03T09:00:00.000Z'', interactions = []\<rparr>"

definition later_world :: world where
  "later_world =
     \<lparr>contextObject = example_context,
      fieldArrays = [[\<lparr>name = js ''kept'', value = js ''as it is'', inline = False\<rparr>]],
      clock = js ''2026-11-03T09:00:01.000Z'',
      interactions = [Logged (js ''Starting Discord notification...'')]\<rparr>"

section \<open>Vocabulary of the properties\<close>

text \<open>The fields of a given name in a result; there are none when the builder raised.\<close>

definition fieldsNamed :: "jsstring \<Rightarrow> js_error + embed \<Rightarrow> field list" where
  "fieldsNamed n r = (case r of Inl err \<Rightarrow> [] | Inr e \<Rightarrow> filter (\<lambda>f. name f = n) (embed_fields e))"

text \<open>
  The value of the commit field as claim C5 words it, to be compared with \<open>commitMessages\<close>:
  the first line of the message of each of the first three commits, cut to 100 code units,
  behind a bullet, joined by line feeds. The claim names no replacement text, so a message that
  is missing counts as empty here.
\<close>

definition claimed_commitMessages :: "commit list \<Rightarrow> jsstring" where
  "claimed_commitMessages commits =
     join [0x0A]
       (map (\<lambda>c. [0x2022, 0x20] @ take 100 (firstLine (case message c of None \<Rightarrow> [] | Some m \<Rightarrow> m)))
          (take 3 commits))"

section \<open>Numbers below \<open>2^53\<close> print exactly\<close>

lemma bitlen_safe:
  assumes "\<bar>v\<bar> < 2 ^ 53"
  shows "bitlen \<bar>v\<bar> \<le> 53"
proof (cases "v = 0")
  case True then show ?thesis by simp
next
  case False
  then have p: "0 < \<bar>v\<bar>" by simp
  from bitlen_bounds [OF p] assms have "(2 :: int) ^ nat (bitlen \<bar>v\<bar> - 1) < 2 ^ 53"
    by linarith
  then have "nat (bitlen \<bar>v\<bar> - 1) < 53"
    using power_less_imp_less_exp [of "2 :: int" "nat (bitlen \<bar>v\<bar> - 1)" 53] by simp
  then show ?thesis by linarith
qed

lemma toDouble_safe: "\<bar>v\<bar> < 2 ^ 53 \<Longrightarrow> toDouble v = Finite v"
  using bitlen_safe [of v] by (simp add: toDouble_def Let_def)

lemma toDouble_large:
  assumes "53 < bitlen \<bar>c\<bar>" and "toDouble c = Finite v"
  shows "2 ^ 53 \<le> \<bar>v\<bar>"
proof -
  define a where "a = \<bar>c\<bar>"
  define e where "e = nat (bitlen a - 53)"
  define q where "q = a div 2 ^ e"
  define q' where "q' = (if a mod 2 ^ e > 2 ^ (e - 1) \<or> (a mod 2 ^ e = 2 ^ (e - 1) \<and> odd q)
                         then q + 1 else q)"
  define m where "m = q' * 2 ^ e"
  define top where "top = (2 :: int) ^ 1024"
  have td: "toDouble c =
      (if e = 0 then Finite c
       else if top \<le> m then (if c < 0 then NegInfinity else PosInfinity)
       else Finite (if c < 0 then - m else m))"
    by (simp only: toDouble_def Let_def a_def e_def q_def q'_def m_def top_def)
  from assms(1) have e: "0 < e" by (simp add: e_def a_def)
  have p: "0 < a"
  proof (rule ccontr)
    assume "\<not> 0 < a"
    then have "c = 0" by (simp add: a_def)
    with assms(1) show False by simp
  qed
  from assms(1) have "nat (bitlen a - 1) = 52 + e" by (simp add: e_def a_def)
  with bitlen_bounds [OF p] have lower: "(2 :: int) ^ (52 + e) \<le> a" by simp
  have "(2 :: int) ^ (52 + e) = 2 ^ 52 * 2 ^ e" by (rule power_add)
  with lower have "(2 ^ 52 * 2 ^ e) div 2 ^ e \<le> a div (2 :: int) ^ e"
    by (intro zdiv_mono1) simp_all
  moreover have "((2 :: int) ^ 52 * 2 ^ e) div 2 ^ e = 2 ^ 52"
    by (rule nonzero_mult_div_cancel_right) simp
  ultimately have q: "2 ^ 52 \<le> q" by (simp only: q_def)
  have "q \<le> q'" by (simp add: q'_def)
  with q have q': "2 ^ 52 \<le> q'" by (rule order_trans)
  from e have "(2 :: int) ^ 1 \<le> 2 ^ e"
    by (intro power_increasing) simp_all
  then have two: "(2 :: int) \<le> 2 ^ e" by simp
  from q' have "0 \<le> q'" by simp
  with q' two have "(2 :: int) ^ 52 * 2 \<le> q' * 2 ^ e"
    by (intro mult_mono) simp_all
  then have m: "2 ^ 53 \<le> m" by (simp add: m_def)
  from e have ne: "e \<noteq> 0" by simp
  from assms(2) td ne have "v = m \<or> v = - m"
    by (cases "top \<le> m"; cases "c < 0")
       (simp_all only: if_True if_False jsnumber.inject jsnumber.distinct simp_thms)
  with m show ?thesis by linarith
qed

lemma toDouble_eq_safe:
  assumes "toDouble c = Finite v" and "\<bar>v\<bar> < 2 ^ 53"
  shows "c = v"
proof (cases "53 < bitlen \<bar>c\<bar>")
  case True
  from toDouble_large [OF True assms(1)] assms(2) show ?thesis by simp
next
  case False
  with assms(1) show ?thesis by (simp add: toDouble_def Let_def)
qed

lemma digits_nonempty: "digits n \<noteq> []"
  by (subst digits.simps) simp

lemma shortestDecimal_safe:
  assumes "0 < v" and "v < 2 ^ 53"
  shows "shortestDecimal v = v"
proof -
  let ?n = "length (digits v)"
  let ?L = "concat (map (\<lambda>k. shortestCandidates v (10 ^ (?n - k))) [1..<Suc ?n])"
  from assms have a: "\<bar>v\<bar> < 2 ^ 53" by simp
  have all: "c = v" if "c \<in> set ?L" for c
  proof -
    from that have "toDouble c = Finite v"
      by (auto simp: shortestCandidates_def Let_def split: if_splits)
    then show ?thesis using a by (rule toDouble_eq_safe)
  qed
  obtain d ds where "digits v = d # ds"
    using digits_nonempty [of v] by (cases "digits v") auto
  then have "?n \<in> set [1..<Suc ?n]" by simp
  moreover have "v \<in> set (shortestCandidates v (10 ^ (?n - ?n)))"
    using toDouble_safe [OF a] by (simp add: shortestCandidates_def Let_def)
  ultimately have "\<exists>k \<in> set [1..<Suc ?n]. v \<in> set (shortestCandidates v (10 ^ (?n - k)))"
    by blast
  then have "v \<in> set ?L"
    unfolding set_concat set_map by blast
  then obtain w ws where l: "?L = w # ws" by (cases ?L) auto
  then have "w \<in> set ?L" by simp
  with all have "w = v" by blast
  with l show ?thesis by (simp add: shortestDecimal_def Let_def del: upt_Suc)
qed

lemma numberToString_safe:
  assumes "\<bar>n\<bar> < 2 ^ 53"
  shows "numberToString (Finite n) = intToString n"
proof -
  have d: "toDouble n = Finite n" using assms by (rule toDouble_safe)
  have p: "positiveToString v = digits v" if "0 < v" "v < 2 ^ 53" for v
  proof -
    from that have "v < 10 ^ 21" by simp
    with shortestDecimal_safe [OF that] show ?thesis
      by (simp add: positiveToString_def Let_def)
  qed
  have z: "digits 0 = js ''0''"
    by (subst digits.simps) (simp add: digitChar_def js_def)
  from assms consider "n = 0" | "0 < n" "n < 2 ^ 53" | "n < 0" "0 < - n" "- n < 2 ^ 53"
    by linarith
  then show ?thesis
  proof cases
    case 1 then show ?thesis using d by (simp add: numberToString.simps intToString_def z)
  next
    case 2 then show ?thesis by (simp add: numberToString.simps d intToString_def p)
  next
    case 3 then show ?thesis by (simp add: numberToString.simps d intToString_def p)
  qed
qed

section \<open>When the builder returns\<close>

text \<open>
  A status whose lower-casing is a name that every object inherits is found by the lookup in
  \<^verbatim>\<open>getStatusStyling\<close>, and what is found has no label. Building the default description
  for such a status raises a TypeError; every other input gives an embed.
\<close>

lemma styling_keys_own: "map_of styling k = Some v \<Longrightarrow> k \<notin> set objectPrototypeKeys"
  by (auto simp: styling_def objectPrototypeKeys_def js_def split: if_splits)

lemma getStatusStyling_inherited:
  "toLowerCase status \<in> set objectPrototypeKeys \<Longrightarrow>
     getStatusStyling toLowerCase status = Inherited (toLowerCase status)"
proof -
  assume k: "toLowerCase status \<in> set objectPrototypeKeys"
  have "map_of styling (toLowerCase status) = None"
  proof (cases "map_of styling (toLowerCase status)")
    case None then show ?thesis .
  next
    case (Some v) with k styling_keys_own show ?thesis by blast
  qed
  with k show ?thesis by (simp add: getStatusStyling_def getProperty_def)
qed

lemma getStatusStyling_own:
  "toLowerCase status \<notin> set objectPrototypeKeys \<Longrightarrow>
     getStatusStyling toLowerCase status =
       Own (case map_of styling (toLowerCase status) of Some s \<Rightarrow> s | None \<Rightarrow> styling_success)"
  by (simp add: getStatusStyling_def getProperty_def split: option.splits)

lemma getStatusStyling_recognized:
  "toLowerCase status \<notin> set objectPrototypeKeys \<Longrightarrow>
     getStatusStyling toLowerCase status =
       Own (if toLowerCase status = js ''failure'' then
              \<lparr>style_color = Finite 0xdc3545, style_emoji = [0x274C], style_label = js ''Failed''\<rparr>
            else if toLowerCase status = js ''cancelled'' then
              \<lparr>style_color = Finite 0x6c757d, style_emoji = [0x26A0, 0xFE0F], style_label = js ''Cancelled''\<rparr>
            else if toLowerCase status = js ''skipped'' then
              \<lparr>style_color = Finite 0xffc107, style_emoji = [0x23ED, 0xFE0F], style_label = js ''Skipped''\<rparr>
            else \<lparr>style_color = Finite 0x28a745, style_emoji = [0x2705], style_label = js ''Success''\<rparr>)"
  by (simp add: getStatusStyling_own styling_def styling_success_def js_def)

lemma embedDescription_returns:
  "customDescription \<noteq> [] \<or> toLowerCase jobStatus \<notin> set objectPrototypeKeys \<Longrightarrow>
     \<exists>d. embedDescription toLowerCase jobStatus customDescription wfName
            (getStatusStyling toLowerCase jobStatus) eventMeta = Inr d"
  by (auto simp: embedDescription_def getStatusStyling_own)

lemma embedDescription_raises:
  "customDescription = [] \<Longrightarrow> toLowerCase jobStatus \<in> set objectPrototypeKeys \<Longrightarrow>
     embedDescription toLowerCase jobStatus customDescription wfName
            (getStatusStyling toLowerCase jobStatus) eventMeta = Inl TypeError"
  by (auto simp: embedDescription_def getStatusStyling_inherited objectPrototypeKeys_def js_def)

lemma buildEmbed_returns:
  assumes "customDescription \<noteq> [] \<or> toLowerCase jobStatus \<notin> set objectPrototypeKeys"
  shows "\<exists>e. buildEmbed toLowerCase now context jobStatus customTitle customDescription customColor
               includeDetails = Inr e"
proof -
  from embedDescription_returns [of customDescription toLowerCase jobStatus, OF assms] obtain d where
    "embedDescription toLowerCase jobStatus customDescription (workflowName context)
       (getStatusStyling toLowerCase jobStatus)
       (getEventMetadata (eventName context) (payload context)) = Inr d"
    by blast
  then show ?thesis by (simp add: buildEmbed_def Let_def)
qed

lemma buildEmbed_raises:
  "customDescription = [] \<Longrightarrow> toLowerCase jobStatus \<in> set objectPrototypeKeys \<Longrightarrow>
     buildEmbed toLowerCase now context jobStatus customTitle customDescription customColor
       includeDetails = Inl TypeError"
  by (simp add: buildEmbed_def Let_def embedDescription_raises)

lemma buildEmbed_title:
  "buildEmbed toLowerCase now context jobStatus customTitle customDescription customColor
     includeDetails = Inr e \<Longrightarrow>
   title e = take 256 (embedTitle toLowerCase jobStatus customTitle
                         (getStatusStyling toLowerCase jobStatus)
                         (getEventMetadata (eventName context) (payload context)))"
  by (auto simp: buildEmbed_def Let_def substring0_def split: sum.splits)

lemma buildEmbed_description:
  "buildEmbed toLowerCase now context jobStatus customTitle customDescription customColor
     includeDetails = Inr e \<Longrightarrow>
   embedDescription toLowerCase jobStatus customDescription (workflowName context)
     (getStatusStyling toLowerCase jobStatus)
     (getEventMetadata (eventName context) (payload context)) = Inr d \<Longrightarrow>
   description e = take 4096 d"
  by (auto simp: buildEmbed_def Let_def substring0_def split: sum.splits)

lemma buildEmbed_color:
  "buildEmbed toLowerCase now context jobStatus customTitle customDescription customColor
     includeDetails = Inr e \<Longrightarrow>
   color e = embedColor toLowerCase jobStatus customColor (getStatusStyling toLowerCase jobStatus)
               (getEventMetadata (eventName context) (payload context))"
  by (auto simp: buildEmbed_def Let_def split: sum.splits)

lemma buildEmbed_fields:
  "buildEmbed toLowerCase now context jobStatus customTitle customDescription customColor
     includeDetails = Inr e \<Longrightarrow>
   embed_fields e =
     map validateField ((if includeDetails then detailFields context else []) @ runLinkFields context)"
  by (auto simp: buildEmbed_def Let_def split: sum.splits)

lemma buildEmbed_footer:
  "buildEmbed toLowerCase now context jobStatus customTitle customDescription customColor
     includeDetails = Inr e \<Longrightarrow>
   footer_text e = take 2048 (js ''GitHub Actions '' @ [0x2022, 0x20] @ workflowName context)"
  by (auto simp: buildEmbed_def Let_def substring0_def split: sum.splits)

lemma buildEmbed_timestamp:
  "buildEmbed toLowerCase now context jobStatus customTitle customDescription customColor
     includeDetails = Inr e \<Longrightarrow> timestamp e = now"
  by (auto simp: buildEmbed_def Let_def split: sum.splits)

lemma buildEmbed_raises_iff:
  "buildEmbed toLowerCase now context jobStatus customTitle customDescription customColor
     includeDetails = Inl TypeError
   \<longleftrightarrow> customDescription = [] \<and> toLowerCase jobStatus \<in> set objectPrototypeKeys"
proof
  assume l: "buildEmbed toLowerCase now context jobStatus customTitle customDescription customColor
     includeDetails = Inl TypeError"
  show "customDescription = [] \<and> toLowerCase jobStatus \<in> set objectPrototypeKeys"
  proof (rule ccontr)
    assume "\<not> (customDescription = [] \<and> toLowerCase jobStatus \<in> set objectPrototypeKeys)"
    then have "customDescription \<noteq> [] \<or> toLowerCase jobStatus \<notin> set objectPrototypeKeys"
      by simp
    from buildEmbed_returns [of customDescription toLowerCase jobStatus, OF this]
    obtain e where "buildEmbed toLowerCase now context jobStatus customTitle customDescription
                      customColor includeDetails = Inr e"
      by blast
    with l show False by simp
  qed
next
  assume "customDescription = [] \<and> toLowerCase jobStatus \<in> set objectPrototypeKeys"
  then show "buildEmbed toLowerCase now context jobStatus customTitle customDescription customColor
     includeDetails = Inl TypeError"
    by (simp add: buildEmbed_raises)
qed

lemma success_lower_own: "toLowerCaseASCII (js ''success'') \<notin> set objectPrototypeKeys"
  by (simp add: toLowerCaseASCII_def objectPrototypeKeys_def js_def)

lemma success_not_inherited:
  "[] \<noteq> ([] :: jsstring) \<or> toLowerCaseASCII (js ''success'') \<notin> set objectPrototypeKeys"
  using success_lower_own by simp

lemma deployed_nonempty: "js ''Deployed'' \<noteq> []"
  by (simp add: js_def)

lemma failure_not_inherited:
  "js ''Deployed'' \<noteq> [] \<or> toLowerCaseASCII (js ''Failure'') \<notin> set objectPrototypeKeys"
  by (simp add: toLowerCaseASCII_def objectPrototypeKeys_def js_def)

lemma example_context_run:
  "runId example_context = Finite 42" "repoUrl example_context = js ''https://x/octo/repo''"
  by (simp_all add: example_context_def repoUrl_def orDefault_def js_def)

section \<open>The names and places of the fields\<close>

lemma name_repositoryField: "name (repositoryField context) = [0xD83D, 0xDCE6] @ js '' Repository''"
  by (simp add: repositoryField_def)

lemma name_commitFields:
  "f \<in> set (commitFields context) \<Longrightarrow> name f = [0xD83D, 0xDCDD] @ js '' Commit''"
  by (auto simp: commitFields_def split: if_splits)

lemma name_pullRequestFields:
  "f \<in> set (pullRequestFields context) \<Longrightarrow> name f = [0xD83D, 0xDD17] @ js '' Pull Request''"
  by (cases "eventName context = js ''pull_request''"; cases "payload_pull_request (payload context)")
     (simp_all add: pullRequestFields_def split: if_splits)

lemma name_pushFields:
  "f \<in> set (pushFields context) \<Longrightarrow> name f = [0xD83D, 0xDCCB] @ js '' Recent Commits''"
  by (cases "eventName context = js ''push''"; cases "payload_commits (payload context)")
     (simp_all add: pushFields_def split: if_splits)

lemma name_releaseFields:
  "f \<in> set (releaseFields context) \<Longrightarrow> name f = [0xD83D, 0xDE80] @ js '' Release''"
  by (cases "eventName context = js ''release''"; cases "payload_release (payload context)")
     (simp_all add: releaseFields_def split: if_splits)

lemma name_issueFields:
  "f \<in> set (issueFields context) \<Longrightarrow> name f = [0xD83D, 0xDC1B] @ js '' Issue''"
  by (cases "eventName context = js ''issues''"; cases "payload_issue (payload context)")
     (simp_all add: issueFields_def split: if_splits)

lemma name_detailFields:
  assumes "f \<in> set (detailFields context)"
  shows "name f \<in> {[0xD83D, 0xDCE6] @ js '' Repository'', [0xD83D, 0xDD00] @ js '' Event'',
                    [0xD83D, 0xDC64] @ js '' Actor'', [0xD83C, 0xDF3F] @ js '' Ref'',
                    [0xD83D, 0xDD22] @ js '' Run Number'', [0xD83D, 0xDCDD] @ js '' Commit'',
                    [0xD83D, 0xDD17] @ js '' Pull Request'', [0xD83D, 0xDCCB] @ js '' Recent Commits'',
                    [0xD83D, 0xDE80] @ js '' Release'', [0xD83D, 0xDC1B] @ js '' Issue''}"
proof -
  from assms consider
      "f = repositoryField context" | "f = eventField context" | "f = actorField context"
    | "f = refField context" | "f = runNumberField context" | "f \<in> set (commitFields context)"
    | "f \<in> set (pullRequestFields context)" | "f \<in> set (pushFields context)"
    | "f \<in> set (releaseFields context)" | "f \<in> set (issueFields context)"
    by (auto simp: detailFields_def)
  then show ?thesis
  proof cases
    case 1 then show ?thesis by (simp add: name_repositoryField)
  next
    case 2 then show ?thesis by (simp add: eventField_def)
  next
    case 3 then show ?thesis by (simp add: actorField_def)
  next
    case 4 then show ?thesis by (simp add: refField_def)
  next
    case 5 then show ?thesis by (simp add: runNumberField_def)
  next
    case 6 then show ?thesis using name_commitFields by simp
  next
    case 7 then show ?thesis using name_pullRequestFields by simp
  next
    case 8 then show ?thesis using name_pushFields by simp
  next
    case 9 then show ?thesis using name_releaseFields by simp
  next
    case 10 then show ?thesis using name_issueFields by simp
  qed
qed

lemma detailFields_not_run_link:
  assumes "f \<in> set (detailFields context)"
  shows "name (validateField f) \<noteq> [0xD83D, 0xDD17] @ js '' Workflow Run''"
  using name_detailFields [OF assms]
  by (auto simp: validateField_def substring0_def js_def)

lemma detailFields_no_commit:
  assumes "commitFields c = []" and "f \<in> set (detailFields c)"
  shows "name (validateField f) \<noteq> [0xD83D, 0xDCDD] @ js '' Commit''"
proof -
  from assms consider
      "f = repositoryField c" | "f = eventField c" | "f = actorField c"
    | "f = refField c" | "f = runNumberField c"
    | "f \<in> set (pullRequestFields c)" | "f \<in> set (pushFields c)"
    | "f \<in> set (releaseFields c)" | "f \<in> set (issueFields c)"
    by (auto simp: detailFields_def)
  then show ?thesis
  proof cases
    case 1 then show ?thesis
      by (simp add: name_repositoryField validateField_def substring0_def js_def)
  next
    case 2 then show ?thesis by (simp add: eventField_def validateField_def substring0_def js_def)
  next
    case 3 then show ?thesis by (simp add: actorField_def validateField_def substring0_def js_def)
  next
    case 4 then show ?thesis by (simp add: refField_def validateField_def substring0_def js_def)
  next
    case 5 then show ?thesis by (simp add: runNumberField_def validateField_def substring0_def js_def)
  next
    case 6 then show ?thesis
      using name_pullRequestFields [of f c] by (simp add: validateField_def substring0_def js_def)
  next
    case 7 then show ?thesis
      using name_pushFields [of f c] by (simp add: validateField_def substring0_def js_def)
  next
    case 8 then show ?thesis
      using name_releaseFields [of f c] by (simp add: validateField_def substring0_def js_def)
  next
    case 9 then show ?thesis
      using name_issueFields [of f c] by (simp add: validateField_def substring0_def js_def)
  qed
qed

lemma runLinkFields_no_commit:
  "f \<in> set (runLinkFields c) \<Longrightarrow> name (validateField f) \<noteq> [0xD83D, 0xDCDD] @ js '' Commit''"
  by (auto simp: runLinkFields_def validateField_def substring0_def js_def split: if_splits)

lemma filter_names_empty:
  "(\<And>f. f \<in> set fs \<Longrightarrow> name (validateField f) \<noteq> n) \<Longrightarrow>
     filter (\<lambda>f. name f = n) (map validateField fs) = []"
  by (induction fs) auto

lemma actor_is_third:
  "map validateField (detailFields context @ fs) ! 2 = validateField (actorField context)"
  by (simp add: detailFields_def)

lemma ref_is_fourth:
  "map validateField (detailFields context @ fs) ! 3 = validateField (refField context)"
  by (simp add: detailFields_def)

lemma length_validateField:
  "length (name (validateField f)) \<le> 256" "length (value (validateField f)) \<le> 1024"
  by (simp_all add: validateField_def substring0_def)

section \<open>The run link\<close>

lemma runLinkFields_present:
  "truthyNumber (runId context) \<Longrightarrow> repoUrl context \<noteq> [] \<Longrightarrow>
     map validateField (runLinkFields context) =
       [\<lparr>name = [0xD83D, 0xDD17] @ js '' Workflow Run'',
         value = take 1024 (js ''[View Details]('' @ repoUrl context @ js ''/actions/runs/''
                            @ numberToString (runId context) @ js '')''),
         inline = False\<rparr>]"
  by (simp add: runLinkFields_def validateField_def substring0_def js_def)

lemma runLinkFields_absent:
  "\<not> truthyNumber (runId context) \<or> repoUrl context = [] \<Longrightarrow> runLinkFields context = []"
  by (auto simp: runLinkFields_def)

section \<open>The commit identifier\<close>

text \<open>The commit identifier is read by \<open>commitFields\<close> only.\<close>

lemma sha_update_constants:
  "repoUrl (c\<lparr>sha := x\<rparr>) = repoUrl c" "repoName (c\<lparr>sha := x\<rparr>) = repoName c"
  "workflowName (c\<lparr>sha := x\<rparr>) = workflowName c" "actorName (c\<lparr>sha := x\<rparr>) = actorName c"
  "refName (c\<lparr>sha := x\<rparr>) = refName c"
  by (simp_all add: repoUrl_def repoName_def workflowName_def actorName_def refName_def)

lemma sha_update_fields:
  "repositoryField (c\<lparr>sha := x\<rparr>) = repositoryField c" "eventField (c\<lparr>sha := x\<rparr>) = eventField c"
  "actorField (c\<lparr>sha := x\<rparr>) = actorField c" "refField (c\<lparr>sha := x\<rparr>) = refField c"
  "runNumberField (c\<lparr>sha := x\<rparr>) = runNumberField c"
  "pullRequestFields (c\<lparr>sha := x\<rparr>) = pullRequestFields c"
  "pushFields (c\<lparr>sha := x\<rparr>) = pushFields c" "releaseFields (c\<lparr>sha := x\<rparr>) = releaseFields c"
  "issueFields (c\<lparr>sha := x\<rparr>) = issueFields c"
  by (simp_all add: repositoryField_def eventField_def actorField_def refField_def
        runNumberField_def pullRequestFields_def pushFields_def releaseFields_def issueFields_def
        sha_update_constants)

lemma sha_update_runLinkFields: "runLinkFields (c\<lparr>sha := x\<rparr>) = runLinkFields c"
  by (simp add: runLinkFields_def sha_update_constants)

lemma commitFields_unknown:
  "commitFields (c\<lparr>sha := Some (js ''Unknown'')\<rparr>) = []" "commitFields (c\<lparr>sha := None\<rparr>) = []"
  "commitFields (c\<lparr>sha := Some []\<rparr>) = []"
  by (simp_all add: commitFields_def commitSha_def orDefault_def)

lemma detailFields_unknown_sha:
  "detailFields (c\<lparr>sha := Some (js ''Unknown'')\<rparr>) = detailFields (c\<lparr>sha := None\<rparr>)"
  by (simp add: detailFields_def sha_update_fields commitFields_unknown)

section \<open>The commit list\<close>

lemma commitLine_shown:
  "commitLine c =
     [0x2022, 0x20] @ take 100 (case message c of
                                  None \<Rightarrow> js ''No message''
                                | Some m \<Rightarrow> if takeWhile (\<lambda>x. x \<noteq> 0x0A) m = [] then js ''No message''
                                            else takeWhile (\<lambda>x. x \<noteq> 0x0A) m)"
  by (cases "message c") (simp_all add: commitLine_def orDefault_def firstLine_def substring0_def)

lemma length_commitLine: "length (commitLine c) \<le> 102"
  by (simp add: commitLine_def substring0_def)

lemma commitLine_nonempty: "commitLine c \<noteq> []"
  by (simp add: commitLine_def)

lemma commitLine_one_line: "0x0A \<notin> set (commitLine c)"
proof -
  have "0x0A \<notin> set (takeWhile (\<lambda>x. x \<noteq> (0x0A :: 16 word)) m)" for m
    by (auto dest: set_takeWhileD)
  then have "0x0A \<notin> set (take 100 (takeWhile (\<lambda>x. x \<noteq> (0x0A :: 16 word)) m))" for m
    by (auto dest: in_set_takeD)
  moreover have "0x0A \<notin> set (take 100 (js ''No message''))"
    by (simp add: js_def)
  ultimately show ?thesis
    unfolding commitLine_shown by (cases "message c") auto
qed

lemma join_nonempty: "xs \<noteq> [] \<Longrightarrow> hd xs \<noteq> [] \<Longrightarrow> join sep xs \<noteq> []"
  by (induction sep xs rule: join.induct) auto

lemma length_join_three:
  assumes "length xs \<le> 3" and "\<forall>x \<in> set xs. length x \<le> 102"
  shows "length (join [c] xs) \<le> 308"
proof -
  from assms(1) have "length xs = 0 \<or> length xs = Suc 0 \<or> length xs = Suc (Suc 0)
      \<or> length xs = Suc (Suc (Suc 0))"
    by arith
  then show ?thesis using assms(2) by (auto simp: length_Suc_conv)
qed

lemma count_join_lines:
  "xs \<noteq> [] \<Longrightarrow> \<forall>x \<in> set xs. c \<notin> set x \<Longrightarrow>
     length (filter (\<lambda>y. y = c) (join [c] xs)) = length xs - 1"
proof (induction "[c]" xs rule: join.induct)
  case 1 then show ?case by simp
next
  case (2 x) then show ?case by (auto simp: filter_empty_conv)
next
  case (3 x y ys)
  then show ?case by (auto simp: filter_empty_conv)
qed

lemma commitMessages_props:
  assumes "commits \<noteq> []"
  shows "commitMessages commits \<noteq> []" and "length (commitMessages commits) \<le> 1024"
    and "length (filter (\<lambda>y. y = 0x0A) (commitMessages commits)) = min 3 (length commits) - 1"
proof -
  let ?ls = "map commitLine (take 3 commits)"
  from assms have ne: "?ls \<noteq> []" by (cases commits) auto
  then have "hd ?ls \<noteq> []"
    using commitLine_nonempty by (cases ?ls) auto
  with ne show "commitMessages commits \<noteq> []"
    unfolding commitMessages_def by (rule join_nonempty)
  have "length (join [0x0A] ?ls) \<le> 308"
    by (rule length_join_three) (auto simp: length_commitLine)
  then show "length (commitMessages commits) \<le> 1024"
    by (simp add: commitMessages_def)
  have "length (filter (\<lambda>y. y = 0x0A) (join [0x0A] ?ls)) = length ?ls - 1"
    using ne commitLine_one_line by (intro count_join_lines) auto
  then show "length (filter (\<lambda>y. y = 0x0A) (commitMessages commits)) = min 3 (length commits) - 1"
    by (simp add: commitMessages_def min.commute)
qed

lemma recent_commits_only_push:
  assumes "eventName context = js ''push''"
  shows "filter (\<lambda>f. name f = [0xD83D, 0xDCCB] @ js '' Recent Commits'')
           (map validateField (detailFields context @ runLinkFields context))
         = map validateField (pushFields context)"
proof -
  let ?n = "[0xD83D, 0xDCCB] @ js '' Recent Commits''"
  have single: "name (validateField (repositoryField context)) \<noteq> ?n"
      "name (validateField (eventField context)) \<noteq> ?n"
      "name (validateField (actorField context)) \<noteq> ?n"
      "name (validateField (refField context)) \<noteq> ?n"
      "name (validateField (runNumberField context)) \<noteq> ?n"
    by (simp_all add: name_repositoryField eventField_def actorField_def refField_def
          runNumberField_def validateField_def substring0_def js_def)
  have commit: "filter (\<lambda>f. name f = ?n) (map validateField (commitFields context)) = []"
    by (rule filter_names_empty)
       (auto dest!: name_commitFields simp: validateField_def substring0_def js_def)
  have run: "filter (\<lambda>f. name f = ?n) (map validateField (runLinkFields context)) = []"
    by (rule filter_names_empty)
       (auto simp: runLinkFields_def validateField_def substring0_def js_def split: if_splits)
  have others: "pullRequestFields context = []" "releaseFields context = []"
      "issueFields context = []"
    using assms by (simp_all add: pullRequestFields_def releaseFields_def issueFields_def js_def)
  have push: "filter (\<lambda>f. name f = ?n) (map validateField (pushFields context))
                = map validateField (pushFields context)"
    by (rule filter_True)
       (auto dest!: name_pushFields simp: validateField_def substring0_def js_def)
  show ?thesis
    using single commit run push by (simp add: detailFields_def others)
qed

section \<open>Chunks and the end of the response\<close>

lemma utf8Decode_append:
  "wellFormedUtf8 a \<Longrightarrow> utf8Decode (a @ b) = utf8Decode a @ utf8Decode b"
proof (induction a rule: wellFormedUtf8.induct)
  case 1
  then show ?case by simp
next
  case (2 x xs)
  note w = wellFormedUtf8.simps(2) [of x]
  note d = utf8Decode.simps(2) [of x]
  have "leadLength x = 0 \<or> leadLength x = 1 \<or> leadLength x = 2 \<or> leadLength x = 3
          \<or> leadLength x = 4"
    by (simp add: leadLength_def)
  then consider (bad) "leadLength x = 0" | (one) "leadLength x = 1" | (two) "leadLength x = 2"
    | (three) "leadLength x = 3" | (four) "leadLength x = 4"
    by auto
  then show ?case
  proof cases
    case bad
    with "2.prems" show ?thesis by (simp add: w)
  next
    case one
    with 2 show ?thesis by (simp add: w d)
  next
    case two
    with "2.prems" have "case xs of c # cs \<Rightarrow> isContinuation c \<and> wellFormedUtf8 cs | [] \<Rightarrow> False"
      by (simp add: w)
    then obtain c cs where x: "xs = c # cs" "isContinuation c" "wellFormedUtf8 cs"
      by (cases xs) auto
    with two "2.IH"(2) [of c cs] have "utf8Decode (cs @ b) = utf8Decode cs @ utf8Decode b"
      by simp
    with two x show ?thesis by (simp add: d)
  next
    case three
    with "2.prems" have "case xs of
         c # d # ds \<Rightarrow> secondByteOk x c \<and> isContinuation d \<and> wellFormedUtf8 ds
       | _ \<Rightarrow> False"
      by (simp add: w)
    then obtain c d' ds where x:
      "xs = c # d' # ds" "secondByteOk x c" "isContinuation d'" "wellFormedUtf8 ds"
      by (cases xs; cases "tl xs") auto
    with three "2.IH"(3) [of c "d' # ds" d' ds]
    have "utf8Decode (ds @ b) = utf8Decode ds @ utf8Decode b"
      by simp
    with three x show ?thesis by (simp add: d)
  next
    case four
    with "2.prems" have "case xs of
         c # d # f # fs \<Rightarrow>
           secondByteOk x c \<and> isContinuation d \<and> isContinuation f \<and> wellFormedUtf8 fs
       | _ \<Rightarrow> False"
      by (simp add: w)
    then obtain c d' f fs where x:
      "xs = c # d' # f # fs" "secondByteOk x c" "isContinuation d'" "isContinuation f"
      "wellFormedUtf8 fs"
      by (cases xs; cases "tl xs"; cases "tl (tl xs)") auto
    with four "2.IH"(4) [of c "d' # f # fs" d' "f # fs" f fs]
    have "utf8Decode (fs @ b) = utf8Decode fs @ utf8Decode b"
      by simp
    with four x show ?thesis by (simp add: d)
  qed
qed

lemma utf8Decode_concat:
  "\<forall>c \<in> set chunks. wellFormedUtf8 c \<Longrightarrow>
     concat (map utf8Decode chunks) = utf8Decode (concat chunks)"
  by (induction chunks) (simp_all add: utf8Decode_append)

lemma wellFormedUtf8_ascii: "\<forall>b \<in> set c. b < 0x80 \<Longrightarrow> wellFormedUtf8 c"
  by (induction c) (simp_all add: wellFormedUtf8.simps leadLength_def)

lemma concat_ascii_chunks:
  assumes "concat chunks = ascii ''oops''"
  shows "concat (map utf8Decode chunks) = js ''oops''"
proof -
  have "\<forall>b \<in> set (ascii ''oops''). b < 0x80" by (simp add: ascii_def)
  with assms have "\<forall>b \<in> set (concat chunks). b < 0x80" by simp
  then have "\<forall>c \<in> set chunks. \<forall>b \<in> set c. b < 0x80" by auto
  then have "\<forall>c \<in> set chunks. wellFormedUtf8 c" using wellFormedUtf8_ascii by blast
  then have "concat (map utf8Decode chunks) = utf8Decode (concat chunks)"
    by (rule utf8Decode_concat)
  also have "\<dots> = js ''oops''"
    unfolding assms by (simp add: utf8Decode.simps leadLength_def ascii_def js_def)
  finally show ?thesis .
qed

lemma responseEvents_ended:
  "responseEvents statusCode responseData (map DataEvent chunks @ EndEvent # later)
     = onEnd statusCode (responseData @ concat (map utf8Decode chunks))"
  by (induction chunks arbitrary: responseData) simp_all

lemma status_500_text: "numberToString (Finite 500) = js ''500''"
proof -
  have "numberToString (Finite 500) = intToString 500"
    by (rule numberToString_safe) simp
  also have "intToString 500 = js ''500''"
    by code_simp
  finally show ?thesis .
qed

section \<open>The run of the builder\<close>

text \<open>
  A run writes only to the array it has created, which is the last one of the store, and
  comes to the value of \<open>buildEmbed\<close> at the instant of the clock.
\<close>

lemma run_readContext [simp]: "run_state readContext w = (contextObject w, w)"
  by (simp add: readContext_def)

lemma run_newArray [simp]:
  "run_state newArray w = (length (fieldArrays w), w\<lparr>fieldArrays := fieldArrays w @ [[]]\<rparr>)"
  by (simp add: newArray_def)

lemma run_toISOStringNow [simp]:
  "run_state toISOStringNow w = (clock w, w\<lparr>interactions := interactions w @ [ClockRead]\<rparr>)"
  by (simp add: toISOStringNow_def)

lemma run_push_last [simp]:
  "run_state (push (length A) f) (w\<lparr>fieldArrays := A @ [xs]\<rparr>)
     = ((), w\<lparr>fieldArrays := A @ [xs @ [f]]\<rparr>)"
  by (simp add: push_def)

lemma run_pushEach_last [simp]:
  "run_state (pushEach (length A) fs) (w\<lparr>fieldArrays := A @ [xs]\<rparr>)
     = ((), w\<lparr>fieldArrays := A @ [xs @ fs]\<rparr>)"
  by (induction fs arbitrary: xs) simp_all

lemma run_readArray_last [simp]:
  "run_state (readArray (length A)) (w\<lparr>fieldArrays := A @ [xs]\<rparr>)
     = (xs, w\<lparr>fieldArrays := A @ [xs]\<rparr>)"
  by (simp add: readArray_def)

lemma run_buildEmbedRun:
  "run_state (buildEmbedRun toLowerCase jobStatus customTitle customDescription customColor
               includeDetails) w
   = (case buildEmbed toLowerCase (clock w) (contextObject w) jobStatus customTitle
             customDescription customColor includeDetails of
        Inl e \<Rightarrow> (Inl e, w)
      | Inr e \<Rightarrow>
          (Inr e, w\<lparr>fieldArrays := fieldArrays w @ [(if includeDetails then detailFields (contextObject w) else [])
                                                    @ runLinkFields (contextObject w)],
                    interactions := interactions w @ [ClockRead]\<rparr>))"
  by (cases "embedDescription toLowerCase jobStatus customDescription (workflowName (contextObject w))
              (getStatusStyling toLowerCase jobStatus)
              (getEventMetadata (eventName (contextObject w)) (payload (contextObject w)))")
     (simp_all add: buildEmbedRun_def buildEmbed_def Let_def detailFields_def)

lemma example_pushed_count:
  "length (detailFields example_context @ runLinkFields example_context) = 8"
  by code_simp

section \<open>Properties\<close>

text \<open>
  The properties of the builder are stated for the inputs on which it returns an embed, and
  state that it does return one there. By \<open>buildEmbed_raises_iff\<close> these are all inputs but
  those with an empty custom description and a status whose lower-casing is a name inherited
  from \<^verbatim>\<open>Object.prototype\<close>; a lower-casing that yields no capitals can only reach
  \<^verbatim>\<open>constructor\<close> and \<^verbatim>\<open>__proto__\<close> among these.
\<close>

text \<open>
  C1. In every embed that is built, the color is the custom color parsed as hexadecimal when
  that override is not empty, whatever the status and the event; otherwise the color of the
  status styling when the lower-cased status is not \<^verbatim>\<open>success\<close>; otherwise the color of
  the event metadata. With the custom color \<^verbatim>\<open>00ff00\<close>, the status \<^verbatim>\<open>failure\<close> and a
  push event the color is \<open>0x00ff00\<close>. The hypothesis names the inputs on which an embed is
  built at all (\<open>buildEmbed_raises_iff\<close>).
\<close>

theorem color_resolution:
  assumes "customDescription \<noteq> [] \<or> toLowerCase jobStatus \<notin> set objectPrototypeKeys"
  shows "(\<exists>e. buildEmbed toLowerCase now context jobStatus customTitle customDescription customColor
                includeDetails = Inr e
             \<and> color e =
                 (if customColor \<noteq> [] then Some (parseInt16 customColor)
                  else if toLowerCase jobStatus \<noteq> js ''success'' then
                    readProp style_color (getStatusStyling toLowerCase jobStatus)
                  else readProp meta_color (getEventMetadata (eventName context) (payload context))))
       \<and> (\<exists>e. buildEmbed toLowerCaseASCII now (context\<lparr>eventName := js ''push''\<rparr>) (js ''failure'')
                  customTitle customDescription (js ''00ff00'') includeDetails = Inr e
               \<and> color e = Some (Finite 0x00ff00))"
proof
  from buildEmbed_returns [of customDescription toLowerCase jobStatus, OF assms]
  obtain e where e: "buildEmbed toLowerCase now context jobStatus customTitle customDescription
                       customColor includeDetails = Inr e"
    by blast
  from buildEmbed_color [OF e] have "color e =
      (if customColor \<noteq> [] then Some (parseInt16 customColor)
       else if toLowerCase jobStatus \<noteq> js ''success'' then
         readProp style_color (getStatusStyling toLowerCase jobStatus)
       else readProp meta_color (getEventMetadata (eventName context) (payload context)))"
    by (simp add: embedColor_def)
  with e show "\<exists>e. buildEmbed toLowerCase now context jobStatus customTitle customDescription
                     customColor includeDetails = Inr e
             \<and> color e =
                 (if customColor \<noteq> [] then Some (parseInt16 customColor)
                  else if toLowerCase jobStatus \<noteq> js ''success'' then
                    readProp style_color (getStatusStyling toLowerCase jobStatus)
                  else readProp meta_color (getEventMetadata (eventName context) (payload context)))"
    by blast
next
  have "toLowerCaseASCII (js ''failure'') \<notin> set objectPrototypeKeys"
    by (simp add: toLowerCaseASCII_def objectPrototypeKeys_def js_def)
  then have "customDescription \<noteq> [] \<or> toLowerCaseASCII (js ''failure'') \<notin> set objectPrototypeKeys"
    by simp
  from buildEmbed_returns [of customDescription toLowerCaseASCII "js ''failure''", OF this]
  obtain e where e: "buildEmbed toLowerCaseASCII now (context\<lparr>eventName := js ''push''\<rparr>)
                       (js ''failure'') customTitle customDescription (js ''00ff00'') includeDetails = Inr e"
    by blast
  have p: "parseInt16 (js ''00ff00'') = Finite 0x00ff00"
    by code_simp
  from buildEmbed_color [OF e] p have "color e = Some (Finite 0x00ff00)"
    by (simp add: embedColor_def js_def)
  with e show "\<exists>e. buildEmbed toLowerCaseASCII now (context\<lparr>eventName := js ''push''\<rparr>)
                     (js ''failure'') customTitle customDescription (js ''00ff00'') includeDetails = Inr e
               \<and> color e = Some (Finite 0x00ff00)"
    by blast
qed

theorem color_resolution_witness:
  "toLowerCaseASCII (js ''Cancelled'') \<notin> set objectPrototypeKeys
   \<and> (\<exists>e. buildEmbed toLowerCaseASCII (js ''2026'') example_context (js ''Cancelled'') [] [] [] True = Inr e
          \<and> color e = Some (Finite 0x6c757d))"
proof -
  have k: "toLowerCaseASCII (js ''Cancelled'') = js ''cancelled''"
    by (simp add: toLowerCaseASCII_def js_def)
  have h: "[] \<noteq> ([] :: jsstring) \<or> toLowerCaseASCII (js ''Cancelled'') \<notin> set objectPrototypeKeys"
    by (simp add: toLowerCaseASCII_def objectPrototypeKeys_def js_def)
  have s: "readProp style_color (getStatusStyling toLowerCaseASCII (js ''Cancelled'')) = Some (Finite 0x6c757d)"
    using h by (simp add: getStatusStyling_recognized k) (simp add: js_def)
  from color_resolution [of "[]" toLowerCaseASCII "js ''Cancelled''" "js ''2026''" example_context "[]" "[]" True, OF h]
  show ?thesis using h s k by (simp add: js_def)
qed

text \<open>
  C2. The field \<^verbatim>\<open>Workflow Run\<close> is among the fields exactly when the run identifier is
  present (truthy: a Number other than \<open>NaN\<close> and zero) and the repository URL is not
  empty, whether or not the details are included. When it is there it is the last field, it is
  not inline, and its value is the link \<^verbatim>\<open>[View Details]({repoUrl}/actions/runs/{runId})\<close>
  with the run identifier as a template literal prints a Number, cut to 1024 code units like
  every value. Without details the embed has exactly that one field, or none.
\<close>

theorem run_link_field:
  assumes "customDescription \<noteq> [] \<or> toLowerCase jobStatus \<notin> set objectPrototypeKeys"
  shows "\<exists>e. buildEmbed toLowerCase now context jobStatus customTitle customDescription customColor
               includeDetails = Inr e
     \<and> ((\<exists>f \<in> set (embed_fields e). name f = [0xD83D, 0xDD17] @ js '' Workflow Run'')
          \<longleftrightarrow> runId context \<noteq> NaN \<and> runId context \<noteq> Finite 0 \<and> repoUrl context \<noteq> [])
     \<and> (runId context \<noteq> NaN \<and> runId context \<noteq> Finite 0 \<and> repoUrl context \<noteq> [] \<longrightarrow>
            embed_fields e \<noteq> []
          \<and> last (embed_fields e) =
              \<lparr>name = [0xD83D, 0xDD17] @ js '' Workflow Run'',
               value = take 1024 (js ''[View Details]('' @ repoUrl context @ js ''/actions/runs/''
                                  @ numberToString (runId context) @ js '')''),
               inline = False\<rparr>)
     \<and> (\<not> includeDetails \<longrightarrow>
            length (embed_fields e) =
              (if runId context \<noteq> NaN \<and> runId context \<noteq> Finite 0 \<and> repoUrl context \<noteq> []
               then 1 else 0))"
proof -
  from buildEmbed_returns [of customDescription toLowerCase jobStatus, OF assms]
  obtain e where e: "buildEmbed toLowerCase now context jobStatus customTitle customDescription
                       customColor includeDetails = Inr e"
    by blast
  let ?details = "map validateField (if includeDetails then detailFields context else [])"
  have f: "embed_fields e = ?details @ map validateField (runLinkFields context)"
    using buildEmbed_fields [OF e] by simp
  have d: "\<forall>f \<in> set ?details. name f \<noteq> [0xD83D, 0xDD17] @ js '' Workflow Run''"
    using detailFields_not_run_link by auto
  show ?thesis
  proof (cases "runId context \<noteq> NaN \<and> runId context \<noteq> Finite 0 \<and> repoUrl context \<noteq> []")
    case False
    then have "\<not> truthyNumber (runId context) \<or> repoUrl context = []"
      by (auto simp: truthyNumber_def)
    then have "embed_fields e = ?details"
      using f runLinkFields_absent by simp
    with False d e show ?thesis by auto
  next
    case True
    then have t: "truthyNumber (runId context)" and u: "repoUrl context \<noteq> []"
      by (simp_all add: truthyNumber_def)
    from f runLinkFields_present [OF t u]
    have "embed_fields e = ?details @
       [\<lparr>name = [0xD83D, 0xDD17] @ js '' Workflow Run'',
         value = take 1024 (js ''[View Details]('' @ repoUrl context @ js ''/actions/runs/''
                            @ numberToString (runId context) @ js '')''),
         inline = False\<rparr>]"
      by simp
    with True e show ?thesis by auto
  qed
qed

theorem run_link_field_witness:
  "toLowerCaseASCII (js ''success'') \<notin> set objectPrototypeKeys
   \<and> (\<exists>e. buildEmbed toLowerCaseASCII [] example_context (js ''success'') [] [] [] False = Inr e
          \<and> embed_fields e =
               [\<lparr>name = [0xD83D, 0xDD17] @ js '' Workflow Run'',
                 value = js ''[View Details](https://x/octo/repo/actions/runs/42)'',
                 inline = False\<rparr>])"
proof -
  from run_link_field [of "[]" toLowerCaseASCII "js ''success''" "[]" example_context "[]" "[]" False,
      OF success_not_inherited]
  obtain e where e: "buildEmbed toLowerCaseASCII [] example_context (js ''success'') [] [] [] False = Inr e"
    and l: "runId example_context \<noteq> NaN \<and> runId example_context \<noteq> Finite 0
              \<and> repoUrl example_context \<noteq> [] \<longrightarrow>
            embed_fields e \<noteq> []
          \<and> last (embed_fields e) =
              \<lparr>name = [0xD83D, 0xDD17] @ js '' Workflow Run'',
               value = take 1024 (js ''[View Details]('' @ repoUrl example_context
                                  @ js ''/actions/runs/'' @ numberToString (runId example_context)
                                  @ js '')''),
               inline = False\<rparr>"
    and n: "\<not> False \<longrightarrow>
            length (embed_fields e) =
              (if runId example_context \<noteq> NaN \<and> runId example_context \<noteq> Finite 0
                  \<and> repoUrl example_context \<noteq> []
               then 1 else 0)"
    by blast
  have "numberToString (Finite 42) = intToString 42"
    by (rule numberToString_safe) simp
  also have "intToString 42 = js ''42''"
    by code_simp
  finally have d: "numberToString (Finite 42) = js ''42''" .
  from n have len: "length (embed_fields e) = 1"
    by (simp add: example_context_run js_def)
  from l have "last (embed_fields e) =
      \<lparr>name = [0xD83D, 0xDD17] @ js '' Workflow Run'',
       value = js ''[View Details](https://x/octo/repo/actions/runs/42)'',
       inline = False\<rparr>"
    by (simp add: example_context_run d) (simp add: js_def)
  moreover from len obtain x where "embed_fields e = [x]"
    by (cases "embed_fields e") auto
  ultimately have "embed_fields e =
               [\<lparr>name = [0xD83D, 0xDD17] @ js '' Workflow Run'',
                 value = js ''[View Details](https://x/octo/repo/actions/runs/42)'',
                 inline = False\<rparr>]"
    by simp
  with e success_lower_own show ?thesis by blast
qed

text \<open>
  C3. Whatever the lengths of the inputs, the builder returns an embed whose title has at most
  256 code units, whose description at most 4096, whose footer text at most 2048, and whose
  fields have names of at most 256 and values of at most 1024. A custom title comes out as its
  first 256 code units, so one of length 300 has length 256; an actor name comes out in the
  third field as its first 1024 code units, so one of length 2000 has length 1024.
\<close>

theorem length_caps:
  assumes "customDescription \<noteq> [] \<or> toLowerCase jobStatus \<notin> set objectPrototypeKeys"
  shows "\<exists>e. buildEmbed toLowerCase now context jobStatus customTitle customDescription customColor
               includeDetails = Inr e
     \<and> length (title e) \<le> 256 \<and> length (description e) \<le> 4096 \<and> length (footer_text e) \<le> 2048
     \<and> (\<forall>f \<in> set (embed_fields e). length (name f) \<le> 256 \<and> length (value f) \<le> 1024)
     \<and> (customTitle \<noteq> [] \<longrightarrow> title e = take 256 customTitle)
     \<and> (length customTitle = 300 \<longrightarrow> length (title e) = 256)
     \<and> (includeDetails \<longrightarrow>
          (\<forall>a. actor context = Some a \<and> a \<noteq> [] \<longrightarrow>
             value (embed_fields e ! 2) = take 1024 a
           \<and> (length a = 2000 \<longrightarrow> length (value (embed_fields e ! 2)) = 1024)))"
proof -
  from buildEmbed_returns [of customDescription toLowerCase jobStatus, OF assms]
  obtain e where e: "buildEmbed toLowerCase now context jobStatus customTitle customDescription
                       customColor includeDetails = Inr e"
    by blast
  from embedDescription_returns [of customDescription toLowerCase jobStatus, OF assms]
  obtain d where d: "embedDescription toLowerCase jobStatus customDescription (workflowName context)
       (getStatusStyling toLowerCase jobStatus)
       (getEventMetadata (eventName context) (payload context)) = Inr d"
    by blast
  have t: "length (title e) \<le> 256"
    using buildEmbed_title [OF e] by simp
  have ds: "length (description e) \<le> 4096"
    using buildEmbed_description [OF e d] by simp
  have ft: "length (footer_text e) \<le> 2048"
    using buildEmbed_footer [OF e] by simp
  have fs: "\<forall>f \<in> set (embed_fields e). length (name f) \<le> 256 \<and> length (value f) \<le> 1024"
    using buildEmbed_fields [OF e] length_validateField by auto
  have ct: "customTitle \<noteq> [] \<longrightarrow> title e = take 256 customTitle"
    using buildEmbed_title [OF e] by (simp add: embedTitle_def)
  have ct300: "length customTitle = 300 \<longrightarrow> length (title e) = 256"
  proof
    assume l: "length customTitle = 300"
    then have "customTitle \<noteq> []" by auto
    with ct l show "length (title e) = 256" by simp
  qed
  have ac: "includeDetails \<longrightarrow>
          (\<forall>a. actor context = Some a \<and> a \<noteq> [] \<longrightarrow>
             value (embed_fields e ! 2) = take 1024 a
           \<and> (length a = 2000 \<longrightarrow> length (value (embed_fields e ! 2)) = 1024))"
  proof (intro impI allI)
    fix a
    assume i: includeDetails and a: "actor context = Some a \<and> a \<noteq> []"
    from i buildEmbed_fields [OF e]
    have "embed_fields e = map validateField (detailFields context @ runLinkFields context)"
      by simp
    then have "embed_fields e ! 2 = validateField (actorField context)"
      by (simp only: actor_is_third)
    with a have v: "value (embed_fields e ! 2) = take 1024 a"
      by (simp add: validateField_def actorField_def actorName_def orDefault_def substring0_def)
    then show "value (embed_fields e ! 2) = take 1024 a
           \<and> (length a = 2000 \<longrightarrow> length (value (embed_fields e ! 2)) = 1024)"
      by simp
  qed
  from e t ds ft fs ct ct300 ac show ?thesis by blast
qed

theorem length_caps_witness:
  "toLowerCaseASCII (js ''success'') \<notin> set objectPrototypeKeys
   \<and> (\<exists>e. buildEmbed toLowerCaseASCII [] (example_context\<lparr>actor := Some (replicate 2000 0x61)\<rparr>)
              (js ''success'') (replicate 300 0x62) [] [] True = Inr e
          \<and> title e = replicate 256 0x62
          \<and> value (embed_fields e ! 2) = replicate 1024 0x61)"
proof -
  from length_caps [of "[]" toLowerCaseASCII "js ''success''" "[]"
      "example_context\<lparr>actor := Some (replicate 2000 0x61)\<rparr>" "replicate 300 0x62" "[]" True,
      OF success_not_inherited]
  obtain e where e: "buildEmbed toLowerCaseASCII [] (example_context\<lparr>actor := Some (replicate 2000 0x61)\<rparr>)
              (js ''success'') (replicate 300 0x62) [] [] True = Inr e"
    and t: "replicate 300 (0x62 :: 16 word) \<noteq> [] \<longrightarrow> title e = take 256 (replicate 300 0x62)"
    and a: "True \<longrightarrow>
          (\<forall>a. actor (example_context\<lparr>actor := Some (replicate 2000 0x61)\<rparr>) = Some a \<and> a \<noteq> [] \<longrightarrow>
             value (embed_fields e ! 2) = take 1024 a
           \<and> (length a = 2000 \<longrightarrow> length (value (embed_fields e ! 2)) = 1024))"
    by blast
  from t have t': "title e = replicate 256 0x62"
    by simp
  from a have "value (embed_fields e ! 2) = take 1024 (replicate 2000 0x61)"
    by simp
  then have "value (embed_fields e ! 2) = replicate 1024 0x61"
    by simp
  with e t' success_lower_own show ?thesis by blast
qed

text \<open>
  C4. A custom title that is not empty is the title, cut to 256 code units and unchanged when
  it is no longer than that; likewise a custom description, with 4096. Without a custom title
  the title is, cut to 256 code units, the status emoji, the event emoji, the event title and
  the status label with single spaces between them when the lower-cased status is not
  \<^verbatim>\<open>success\<close>, and the event emoji, a space and the event title when it is.
\<close>

theorem title_and_description:
  assumes "customDescription \<noteq> [] \<or> toLowerCase jobStatus \<notin> set objectPrototypeKeys"
  shows "\<exists>e. buildEmbed toLowerCase now context jobStatus customTitle customDescription customColor
               includeDetails = Inr e
     \<and> (customTitle \<noteq> [] \<longrightarrow> title e = take 256 customTitle)
     \<and> (customTitle \<noteq> [] \<and> length customTitle \<le> 256 \<longrightarrow> title e = customTitle)
     \<and> (customDescription \<noteq> [] \<longrightarrow> description e = take 4096 customDescription)
     \<and> (customDescription \<noteq> [] \<and> length customDescription \<le> 4096 \<longrightarrow>
          description e = customDescription)
     \<and> (customTitle = [] \<and> toLowerCase jobStatus \<noteq> js ''success'' \<longrightarrow>
          title e = take 256
            (interp (readProp style_emoji (getStatusStyling toLowerCase jobStatus)) @ js '' ''
             @ interp (readProp meta_emoji (getEventMetadata (eventName context) (payload context)))
             @ js '' ''
             @ interp (readProp meta_title (getEventMetadata (eventName context) (payload context)))
             @ js '' ''
             @ interp (readProp style_label (getStatusStyling toLowerCase jobStatus))))
     \<and> (customTitle = [] \<and> toLowerCase jobStatus = js ''success'' \<longrightarrow>
          title e = take 256
            (interp (readProp meta_emoji (getEventMetadata (eventName context) (payload context)))
             @ js '' ''
             @ interp (readProp meta_title (getEventMetadata (eventName context) (payload context)))))"
proof -
  from buildEmbed_returns [of customDescription toLowerCase jobStatus, OF assms]
  obtain e where e: "buildEmbed toLowerCase now context jobStatus customTitle customDescription
                       customColor includeDetails = Inr e"
    by blast
  have t: "title e = take 256 (embedTitle toLowerCase jobStatus customTitle
                         (getStatusStyling toLowerCase jobStatus)
                         (getEventMetadata (eventName context) (payload context)))"
    using buildEmbed_title [OF e] .
  have d: "customDescription \<noteq> [] \<longrightarrow> description e = take 4096 customDescription"
  proof
    assume c: "customDescription \<noteq> []"
    then have "embedDescription toLowerCase jobStatus customDescription (workflowName context)
       (getStatusStyling toLowerCase jobStatus)
       (getEventMetadata (eventName context) (payload context)) = Inr customDescription"
      by (simp add: embedDescription_def)
    from buildEmbed_description [OF e this]
    show "description e = take 4096 customDescription" .
  qed
  from t have t1: "customTitle \<noteq> [] \<longrightarrow> title e = take 256 customTitle"
    by (simp add: embedTitle_def)
  from t have t2: "customTitle = [] \<and> toLowerCase jobStatus \<noteq> js ''success'' \<longrightarrow>
          title e = take 256
            (interp (readProp style_emoji (getStatusStyling toLowerCase jobStatus)) @ js '' ''
             @ interp (readProp meta_emoji (getEventMetadata (eventName context) (payload context)))
             @ js '' ''
             @ interp (readProp meta_title (getEventMetadata (eventName context) (payload context)))
             @ js '' ''
             @ interp (readProp style_label (getStatusStyling toLowerCase jobStatus)))"
    by (simp add: embedTitle_def)
  from t have t3: "customTitle = [] \<and> toLowerCase jobStatus = js ''success'' \<longrightarrow>
          title e = take 256
            (interp (readProp meta_emoji (getEventMetadata (eventName context) (payload context)))
             @ js '' ''
             @ interp (readProp meta_title (getEventMetadata (eventName context) (payload context))))"
    by (simp add: embedTitle_def)
  from t1 have t4: "customTitle \<noteq> [] \<and> length customTitle \<le> 256 \<longrightarrow> title e = customTitle"
    by simp
  from d have d2: "customDescription \<noteq> [] \<and> length customDescription \<le> 4096 \<longrightarrow>
          description e = customDescription"
    by simp
  from e t1 t4 d d2 t2 t3 show ?thesis by blast
qed

theorem title_and_description_witness:
  "js ''Deployed'' \<noteq> []
   \<and> (\<exists>e. buildEmbed toLowerCaseASCII [] example_context (js ''Failure'') [] (js ''Deployed'') [] True
            = Inr e
          \<and> title e = [0x274C] @ js '' '' @ [0xD83D, 0xDCE4] @ js '' Push Failed''
          \<and> description e = js ''Deployed'')"
proof -
  let ?S = "getStatusStyling toLowerCaseASCII (js ''Failure'')"
  let ?M = "getEventMetadata (eventName example_context) (payload example_context)"
  from title_and_description [of "js ''Deployed''" toLowerCaseASCII "js ''Failure''" "[]"
      example_context "[]" "[]" True, OF failure_not_inherited]
  obtain e where e: "buildEmbed toLowerCaseASCII [] example_context (js ''Failure'') [] (js ''Deployed'')
                       [] True = Inr e"
    and d: "js ''Deployed'' \<noteq> [] \<and> length (js ''Deployed'') \<le> 4096 \<longrightarrow> description e = js ''Deployed''"
    and t: "([] :: jsstring) = [] \<and> toLowerCaseASCII (js ''Failure'') \<noteq> js ''success'' \<longrightarrow>
          title e = take 256
            (interp (readProp style_emoji ?S) @ js '' '' @ interp (readProp meta_emoji ?M) @ js '' ''
             @ interp (readProp meta_title ?M) @ js '' '' @ interp (readProp style_label ?S))"
    by blast
  have k: "toLowerCaseASCII (js ''Failure'') = js ''failure''"
    by (simp add: toLowerCaseASCII_def js_def)
  have s: "?S = Own \<lparr>style_color = Finite 0xdc3545, style_emoji = [0x274C], style_label = js ''Failed''\<rparr>"
    by (simp add: getStatusStyling_def getProperty_def styling_def k) (simp add: js_def)
  have m: "readProp meta_emoji ?M = Some [0xD83D, 0xDCE4]" "readProp meta_title ?M = Some (js ''Push'')"
    by (simp_all add: getEventMetadata_def getProperty_def metadata_def example_context_def)
  have ne: "toLowerCaseASCII (js ''Failure'') \<noteq> js ''success''"
    by (simp add: k) (simp add: js_def)
  from t ne have "title e = take 256
            (interp (readProp style_emoji ?S) @ js '' '' @ interp (readProp meta_emoji ?M) @ js '' ''
             @ interp (readProp meta_title ?M) @ js '' '' @ interp (readProp style_label ?S))"
    by blast
  then have t': "title e = [0x274C] @ js '' '' @ [0xD83D, 0xDCE4] @ js '' Push Failed''"
    by (simp add: s m interp_def) (simp add: js_def)
  from d have d': "description e = js ''Deployed''"
    by (simp add: js_def)
  from e t' d' deployed_nonempty show ?thesis by blast
qed

text \<open>
  C5, amended. For a push event built with details: when the commit list is missing or empty
  no field is named \<^verbatim>\<open>Recent Commits\<close>; otherwise exactly one is, it is not inline, and
  its value joins with line feeds one line for each of the first three commits at most, in
  their order. A line is a bullet, a space and the first 100 code units of the first line of
  the message, or of the text \<^verbatim>\<open>No message\<close> when the message is missing or its first
  line is empty. The value has one line per commit shown: two line feeds for five commits.
\<close>

theorem commit_list_field:
  assumes "customDescription \<noteq> [] \<or> toLowerCase jobStatus \<notin> set objectPrototypeKeys"
    and "eventName context = js ''push''"
  shows "\<exists>e. buildEmbed toLowerCase now context jobStatus customTitle customDescription customColor
               True = Inr e
     \<and> (payload_commits (payload context) = None \<or> payload_commits (payload context) = Some [] \<longrightarrow>
          filter (\<lambda>f. name f = [0xD83D, 0xDCCB] @ js '' Recent Commits'') (embed_fields e) = [])
     \<and> (\<forall>commits. payload_commits (payload context) = Some commits \<and> commits \<noteq> [] \<longrightarrow>
          filter (\<lambda>f. name f = [0xD83D, 0xDCCB] @ js '' Recent Commits'') (embed_fields e) =
            [\<lparr>name = [0xD83D, 0xDCCB] @ js '' Recent Commits'',
              value = join [0x0A]
                (map (\<lambda>c. [0x2022, 0x20]
                        @ take 100 (case message c of
                                      None \<Rightarrow> js ''No message''
                                    | Some m \<Rightarrow>
                                        if takeWhile (\<lambda>x. x \<noteq> 0x0A) m = [] then js ''No message''
                                        else takeWhile (\<lambda>x. x \<noteq> 0x0A) m))
                   (take 3 commits)),
              inline = False\<rparr>]
        \<and> length (filter (\<lambda>y. y = 0x0A)
                    (value (hd (filter (\<lambda>f. name f = [0xD83D, 0xDCCB] @ js '' Recent Commits'')
                                  (embed_fields e)))))
            = min 3 (length commits) - 1)"
proof -
  let ?n = "[0xD83D, 0xDCCB] @ js '' Recent Commits''"
  from buildEmbed_returns [of customDescription toLowerCase jobStatus, OF assms(1)]
  obtain e where e: "buildEmbed toLowerCase now context jobStatus customTitle customDescription
                       customColor True = Inr e"
    by blast
  from buildEmbed_fields [OF e]
  have "embed_fields e = map validateField (detailFields context @ runLinkFields context)"
    by simp
  then have f: "filter (\<lambda>f. name f = ?n) (embed_fields e) = map validateField (pushFields context)"
    using recent_commits_only_push [OF assms(2)] by simp
  have none: "payload_commits (payload context) = None \<or> payload_commits (payload context) = Some []
                \<longrightarrow> filter (\<lambda>f. name f = ?n) (embed_fields e) = []"
    using f by (auto simp: pushFields_def)
  have some: "\<forall>commits. payload_commits (payload context) = Some commits \<and> commits \<noteq> [] \<longrightarrow>
          filter (\<lambda>f. name f = ?n) (embed_fields e) =
            [\<lparr>name = ?n,
              value = join [0x0A]
                (map (\<lambda>c. [0x2022, 0x20]
                        @ take 100 (case message c of
                                      None \<Rightarrow> js ''No message''
                                    | Some m \<Rightarrow>
                                        if takeWhile (\<lambda>x. x \<noteq> 0x0A) m = [] then js ''No message''
                                        else takeWhile (\<lambda>x. x \<noteq> 0x0A) m))
                   (take 3 commits)),
              inline = False\<rparr>]
        \<and> length (filter (\<lambda>y. y = 0x0A) (value (hd (filter (\<lambda>f. name f = ?n) (embed_fields e)))))
            = min 3 (length commits) - 1"
  proof (intro allI impI)
    fix commits
    assume c: "payload_commits (payload context) = Some commits \<and> commits \<noteq> []"
    then have ne: "commits \<noteq> []" by simp
    from c commitMessages_props(1) [OF ne] assms(2)
    have "pushFields context = [\<lparr>name = ?n, value = commitMessages commits, inline = False\<rparr>]"
      by (simp add: pushFields_def)
    with f commitMessages_props(2) [OF ne]
    have v: "filter (\<lambda>f. name f = ?n) (embed_fields e) =
               [\<lparr>name = ?n, value = commitMessages commits, inline = False\<rparr>]"
      by (simp add: validateField_def substring0_def js_def)
    have m: "commitMessages commits = join [0x0A]
                (map (\<lambda>c. [0x2022, 0x20]
                        @ take 100 (case message c of
                                      None \<Rightarrow> js ''No message''
                                    | Some m \<Rightarrow>
                                        if takeWhile (\<lambda>x. x \<noteq> 0x0A) m = [] then js ''No message''
                                        else takeWhile (\<lambda>x. x \<noteq> 0x0A) m))
                   (take 3 commits))"
      unfolding commitMessages_def using commitLine_shown by presburger
    from v commitMessages_props(3) [OF ne]
    have "length (filter (\<lambda>y. y = 0x0A) (value (hd (filter (\<lambda>f. name f = ?n) (embed_fields e)))))
            = min 3 (length commits) - 1"
      by simp
    with v m show "filter (\<lambda>f. name f = ?n) (embed_fields e) =
            [\<lparr>name = ?n,
              value = join [0x0A]
                (map (\<lambda>c. [0x2022, 0x20]
                        @ take 100 (case message c of
                                      None \<Rightarrow> js ''No message''
                                    | Some m \<Rightarrow>
                                        if takeWhile (\<lambda>x. x \<noteq> 0x0A) m = [] then js ''No message''
                                        else takeWhile (\<lambda>x. x \<noteq> 0x0A) m))
                   (take 3 commits)),
              inline = False\<rparr>]
        \<and> length (filter (\<lambda>y. y = 0x0A) (value (hd (filter (\<lambda>f. name f = ?n) (embed_fields e)))))
            = min 3 (length commits) - 1"
      by simp
  qed
  from e none some show ?thesis by blast
qed

theorem commit_list_field_witness:
  "toLowerCaseASCII (js ''success'') \<notin> set objectPrototypeKeys
   \<and> eventName example_context = js ''push''
   \<and> (\<exists>e. buildEmbed toLowerCaseASCII [] example_context (js ''success'') [] [] [] True = Inr e
          \<and> filter (\<lambda>f. name f = [0xD83D, 0xDCCB] @ js '' Recent Commits'') (embed_fields e) =
               [\<lparr>name = [0xD83D, 0xDCCB] @ js '' Recent Commits'',
                 value = [0x2022, 0x20] @ js ''one'' @ [0x0A, 0x2022, 0x20] @ js ''two''
                         @ [0x0A, 0x2022, 0x20] @ js ''three'',
                 inline = False\<rparr>])"
proof -
  let ?cs = "[\<lparr>message = Some (js ''one'' @ [0x0A] @ js ''body'')\<rparr>, \<lparr>message = Some (js ''two'')\<rparr>,
              \<lparr>message = Some (js ''three'')\<rparr>, \<lparr>message = Some (js ''four'')\<rparr>,
              \<lparr>message = Some (js ''five'')\<rparr>]"
  have p: "eventName example_context = js ''push''"
    by (simp add: example_context_def)
  have c: "payload_commits (payload example_context) = Some ?cs \<and> ?cs \<noteq> []"
    by (simp add: example_context_def)
  from commit_list_field [of "[]" toLowerCaseASCII "js ''success''" example_context "[]" "[]" "[]",
      OF success_not_inherited p]
  obtain e where e: "buildEmbed toLowerCaseASCII [] example_context (js ''success'') [] [] [] True = Inr e"
    and s: "\<forall>commits. payload_commits (payload example_context) = Some commits \<and> commits \<noteq> [] \<longrightarrow>
          filter (\<lambda>f. name f = [0xD83D, 0xDCCB] @ js '' Recent Commits'') (embed_fields e) =
            [\<lparr>name = [0xD83D, 0xDCCB] @ js '' Recent Commits'',
              value = join [0x0A]
                (map (\<lambda>c. [0x2022, 0x20]
                        @ take 100 (case message c of
                                      None \<Rightarrow> js ''No message''
                                    | Some m \<Rightarrow>
                                        if takeWhile (\<lambda>x. x \<noteq> 0x0A) m = [] then js ''No message''
                                        else takeWhile (\<lambda>x. x \<noteq> 0x0A) m))
                   (take 3 commits)),
              inline = False\<rparr>]
        \<and> length (filter (\<lambda>y. y = 0x0A)
                    (value (hd (filter (\<lambda>f. name f = [0xD83D, 0xDCCB] @ js '' Recent Commits'')
                                  (embed_fields e)))))
            = min 3 (length commits) - 1"
    by blast
  from s c have "filter (\<lambda>f. name f = [0xD83D, 0xDCCB] @ js '' Recent Commits'') (embed_fields e) =
            [\<lparr>name = [0xD83D, 0xDCCB] @ js '' Recent Commits'',
              value = join [0x0A]
                (map (\<lambda>c. [0x2022, 0x20]
                        @ take 100 (case message c of
                                      None \<Rightarrow> js ''No message''
                                    | Some m \<Rightarrow>
                                        if takeWhile (\<lambda>x. x \<noteq> 0x0A) m = [] then js ''No message''
                                        else takeWhile (\<lambda>x. x \<noteq> 0x0A) m))
                   (take 3 ?cs)),
              inline = False\<rparr>]"
    by blast
  then have "filter (\<lambda>f. name f = [0xD83D, 0xDCCB] @ js '' Recent Commits'') (embed_fields e) =
               [\<lparr>name = [0xD83D, 0xDCCB] @ js '' Recent Commits'',
                 value = [0x2022, 0x20] @ js ''one'' @ [0x0A, 0x2022, 0x20] @ js ''two''
                         @ [0x0A, 0x2022, 0x20] @ js ''three'',
                 inline = False\<rparr>]"
    by (simp add: js_def)
  with e p success_lower_own show ?thesis by blast
qed

text \<open>
  C5 as stated fails on a commit whose message is empty: the claim gives the line that holds
  the bullet and the space only, the builder shows \<^verbatim>\<open>No message\<close> behind the bullet.
\<close>

theorem commit_list_counterexample:
  "map value (fieldsNamed ([0xD83D, 0xDCCB] @ js '' Recent Commits'')
                (buildEmbed toLowerCaseASCII [] empty_message_context (js ''success'') [] [] [] True))
     = [[0x2022, 0x20] @ js ''No message'']
   \<and> claimed_commitMessages [\<lparr>message = Some []\<rparr>] = [0x2022, 0x20]
   \<and> map value (fieldsNamed ([0xD83D, 0xDCCB] @ js '' Recent Commits'')
                (buildEmbed toLowerCaseASCII [] empty_message_context (js ''success'') [] [] [] True))
     \<noteq> [claimed_commitMessages [\<lparr>message = Some []\<rparr>]]"
proof -
  let ?n = "[0xD83D, 0xDCCB] @ js '' Recent Commits''"
  from buildEmbed_returns [of "[]" toLowerCaseASCII "js ''success''", OF success_not_inherited]
  obtain e where e: "buildEmbed toLowerCaseASCII [] empty_message_context (js ''success'') [] [] [] True
                       = Inr e"
    by blast
  have p: "eventName empty_message_context = js ''push''"
    by (simp add: empty_message_context_def example_context_def)
  from buildEmbed_fields [OF e]
  have "embed_fields e =
          map validateField (detailFields empty_message_context @ runLinkFields empty_message_context)"
    by simp
  then have "filter (\<lambda>f. name f = ?n) (embed_fields e)
               = map validateField (pushFields empty_message_context)"
    using recent_commits_only_push [OF p] by simp
  also have "\<dots> = [\<lparr>name = ?n, value = [0x2022, 0x20] @ js ''No message'', inline = False\<rparr>]"
    by (simp add: pushFields_def empty_message_context_def example_context_def commitMessages_def
          commitLine_def firstLine_def orDefault_def substring0_def validateField_def js_def)
  finally have "map value (fieldsNamed ?n (Inr e)) = [[0x2022, 0x20] @ js ''No message'']"
    by (simp add: fieldsNamed_def)
  with e have a: "map value (fieldsNamed ?n
                (buildEmbed toLowerCaseASCII [] empty_message_context (js ''success'') [] [] [] True))
     = [[0x2022, 0x20] @ js ''No message'']"
    by simp
  have c: "claimed_commitMessages [\<lparr>message = Some []\<rparr>] = [0x2022, 0x20]"
    by (simp add: claimed_commitMessages_def firstLine_def)
  have "[[0x2022, 0x20] @ js ''No message''] \<noteq> [[0x2022, 0x20 :: 16 word]]"
    by (simp add: js_def)
  with a c show ?thesis by simp
qed

text \<open>
  C6. The ref \<^verbatim>\<open>refs/heads/a/refs/tags/b\<close> is the branch \<^verbatim>\<open>a/refs/tags/b\<close>. The
  fourth field shows it as \<^verbatim>\<open>a/b\<close>: the second replacement removes the text
  \<^verbatim>\<open>refs/tags/\<close> from the middle of the branch name, where it is no leading prefix.
\<close>

theorem ref_inner_prefix_stripped:
  "\<exists>e. buildEmbed toLowerCaseASCII now (context\<lparr>ref := Some (js ''refs/heads/a/refs/tags/b'')\<rparr>)
          (js ''success'') customTitle customDescription customColor True = Inr e
      \<and> embed_fields e ! 3 = \<lparr>name = [0xD83C, 0xDF3F] @ js '' Ref'', value = js ''a/b'', inline = True\<rparr>
      \<and> value (embed_fields e ! 3) \<noteq> js ''a/refs/tags/b''"
proof -
  let ?c = "context\<lparr>ref := Some (js ''refs/heads/a/refs/tags/b'')\<rparr>"
  have "customDescription \<noteq> [] \<or> toLowerCaseASCII (js ''success'') \<notin> set objectPrototypeKeys"
    using success_not_inherited by simp
  from buildEmbed_returns [of customDescription toLowerCaseASCII "js ''success''", OF this]
  obtain e where e: "buildEmbed toLowerCaseASCII now ?c (js ''success'') customTitle customDescription
                       customColor True = Inr e"
    by blast
  from buildEmbed_fields [OF e]
  have "embed_fields e = map validateField (detailFields ?c @ runLinkFields ?c)"
    by simp
  then have "embed_fields e ! 3 = validateField (refField ?c)"
    by (simp only: ref_is_fourth)
  also have "\<dots> = \<lparr>name = [0xD83C, 0xDF3F] @ js '' Ref'', value = js ''a/b'', inline = True\<rparr>"
    by (simp add: validateField_def refField_def refName_def orDefault_def substring0_def js_def)
  finally have r: "embed_fields e ! 3 =
      \<lparr>name = [0xD83C, 0xDF3F] @ js '' Ref'', value = js ''a/b'', inline = True\<rparr>" .
  then have "value (embed_fields e ! 3) \<noteq> js ''a/refs/tags/b''"
    by (simp add: js_def)
  with e r show ?thesis by blast
qed

text \<open>
  C7, amended. When the address parses and the response is received to its end, the promise
  is resolved if and only if the status code is at least 200 and below 300; for any other
  status it is rejected with an error whose message carries the status code and a text, which
  is the text of the body whenever every chunk is well-formed UTF-8 by itself. Status 204
  resolves; status 500 with the body \<^verbatim>\<open>oops\<close>, in whatever chunks, rejects with the
  message \<^verbatim>\<open>Discord webhook returned status 500: oops\<close>.
\<close>

theorem delivery_outcome:
  assumes "parseURL webhookUrl = Some u"
    and "network (requestOptions u (stringify body)) (stringify body)
           = Response statusCode (map DataEvent chunks @ EndEvent # later)"
  shows "(sendDiscordMessage parseURL stringify network webhookUrl body = Resolved
            \<longleftrightarrow> 200 \<le> statusCode \<and> statusCode < 300)
       \<and> (\<not> (200 \<le> statusCode \<and> statusCode < 300) \<longrightarrow>
            (\<exists>text. sendDiscordMessage parseURL stringify network webhookUrl body =
                      Rejected (Error (js ''Discord webhook returned status ''
                                       @ numberToString (Finite statusCode) @ js '': '' @ text))
                  \<and> ((\<forall>c \<in> set chunks. wellFormedUtf8 c) \<longrightarrow>
                       text = utf8Decode (concat chunks))))
       \<and> (statusCode = 204 \<longrightarrow>
            sendDiscordMessage parseURL stringify network webhookUrl body = Resolved)
       \<and> (statusCode = 500 \<and> concat chunks = ascii ''oops'' \<longrightarrow>
            sendDiscordMessage parseURL stringify network webhookUrl body =
              Rejected (Error (js ''Discord webhook returned status 500: oops'')))"
proof -
  have s: "sendDiscordMessage parseURL stringify network webhookUrl body
             = onEnd statusCode (concat (map utf8Decode chunks))"
    using assms responseEvents_ended [of statusCode "[]" chunks later]
    by (simp add: sendDiscordMessage_def)
  have a: "(onEnd statusCode (concat (map utf8Decode chunks)) :: 'c promise) = Resolved
            \<longleftrightarrow> 200 \<le> statusCode \<and> statusCode < 300"
    by (simp add: onEnd_def)
  have c: "(\<forall>c \<in> set chunks. wellFormedUtf8 c) \<longrightarrow>
            concat (map utf8Decode chunks) = utf8Decode (concat chunks)"
    using utf8Decode_concat by blast
  have "\<not> (200 \<le> statusCode \<and> statusCode < 300) \<longrightarrow>
            (onEnd statusCode (concat (map utf8Decode chunks)) :: 'c promise) =
              Rejected (Error (js ''Discord webhook returned status ''
                               @ numberToString (Finite statusCode) @ js '': ''
                               @ concat (map utf8Decode chunks)))"
    by (simp add: onEnd_def)
  with c have b: "\<not> (200 \<le> statusCode \<and> statusCode < 300) \<longrightarrow>
            (\<exists>text. (onEnd statusCode (concat (map utf8Decode chunks)) :: 'c promise) =
                      Rejected (Error (js ''Discord webhook returned status ''
                                       @ numberToString (Finite statusCode) @ js '': '' @ text))
                  \<and> ((\<forall>c \<in> set chunks. wellFormedUtf8 c) \<longrightarrow>
                       text = utf8Decode (concat chunks)))"
    by blast
  have d: "statusCode = 204 \<longrightarrow>
            (onEnd statusCode (concat (map utf8Decode chunks)) :: 'c promise) = Resolved"
    by (simp add: onEnd_def)
  have e: "statusCode = 500 \<and> concat chunks = ascii ''oops'' \<longrightarrow>
            (onEnd statusCode (concat (map utf8Decode chunks)) :: 'c promise) =
              Rejected (Error (js ''Discord webhook returned status 500: oops''))"
  proof
    assume h: "statusCode = 500 \<and> concat chunks = ascii ''oops''"
    then have "concat (map utf8Decode chunks) = js ''oops''"
      using concat_ascii_chunks by blast
    with h show "(onEnd statusCode (concat (map utf8Decode chunks)) :: 'c promise) =
              Rejected (Error (js ''Discord webhook returned status 500: oops''))"
      by (simp add: onEnd_def status_500_text) (simp add: js_def)
  qed
  from a b d e show ?thesis unfolding s by blast
qed

theorem delivery_outcome_witness:
  "example_parseURL (js ''https://discord.com/api/webhooks/1/t'') = Some example_url
   \<and> example_network (requestOptions example_url (example_stringify ())) (example_stringify ())
       = Response 500 (map DataEvent [ascii ''oo'', ascii ''ps''] @ EndEvent # [])
   \<and> sendDiscordMessage example_parseURL example_stringify example_network
         (js ''https://discord.com/api/webhooks/1/t'') ()
       = Rejected (Error (js ''Discord webhook returned status 500: oops''))"
proof -
  have h1: "example_parseURL (js ''https://discord.com/api/webhooks/1/t'') = Some example_url"
    by (simp add: example_parseURL_def)
  have h2: "example_network (requestOptions example_url (example_stringify ())) (example_stringify ())
              = Response 500 (map DataEvent [ascii ''oo'', ascii ''ps''] @ EndEvent # [])"
    by (simp add: example_network_def requestOptions_def)
  have c: "concat [ascii ''oo'', ascii ''ps''] = ascii ''oops''"
    by (simp add: ascii_def)
  from delivery_outcome [of example_parseURL "js ''https://discord.com/api/webhooks/1/t''" example_url
      example_network example_stringify "()" 500 "[ascii ''oo'', ascii ''ps'']" "[]", OF h1 h2]
  have "(500 :: int) = 500 \<and> concat [ascii ''oo'', ascii ''ps''] = ascii ''oops'' \<longrightarrow>
          sendDiscordMessage example_parseURL example_stringify example_network
            (js ''https://discord.com/api/webhooks/1/t'') ()
          = Rejected (Error (js ''Discord webhook returned status 500: oops''))"
    by blast
  with c have "sendDiscordMessage example_parseURL example_stringify example_network
                 (js ''https://discord.com/api/webhooks/1/t'') ()
               = Rejected (Error (js ''Discord webhook returned status 500: oops''))"
    by blast
  with h1 h2 show ?thesis by blast
qed

text \<open>
  C7 as stated fails on a response that arrives and never ends: with status 500 the promise
  is not rejected, it stays pending. And when the two bytes of one character arrive in two
  chunks, the message of the error carries two replacement characters, not the text of the
  body.
\<close>

theorem delivery_outcome_counterexample:
  "sendDiscordMessage example_parseURL example_stringify stalled_network
     (js ''https://discord.com/api/webhooks/1/t'') () = Pending
   \<and> sendDiscordMessage example_parseURL example_stringify split_network
       (js ''https://discord.com/api/webhooks/1/t'') ()
     = Rejected (Error (js ''Discord webhook returned status 500: '' @ [0xFFFD, 0xFFFD]))
   \<and> utf8Decode [0xC3, 0xA9] = [0xE9]"
proof -
  have h1: "example_parseURL (js ''https://discord.com/api/webhooks/1/t'') = Some example_url"
    by (simp add: example_parseURL_def)
  have a: "sendDiscordMessage example_parseURL example_stringify stalled_network
     (js ''https://discord.com/api/webhooks/1/t'') () = Pending"
    by (simp add: sendDiscordMessage_def h1 stalled_network_def)
  have b: "sendDiscordMessage example_parseURL example_stringify split_network
       (js ''https://discord.com/api/webhooks/1/t'') ()
     = Rejected (Error (js ''Discord webhook returned status 500: '' @ [0xFFFD, 0xFFFD]))"
    by (simp add: sendDiscordMessage_def h1 split_network_def onEnd_def status_500_text
          utf8Decode.simps leadLength_def)
       (simp add: js_def)
  have c: "utf8Decode [0xC3, 0xA9] = [0xE9]"
    by (simp add: utf8Decode.simps leadLength_def isContinuation_def codeUnits_def)
  from a b c show ?thesis by blast
qed

text \<open>
  C8. The status \<^verbatim>\<open>constructor\<close> is none of the four recognised ones, yet
  \<^verbatim>\<open>getStatusStyling\<close> does not return the success entry for it: the lookup finds the
  constructor that the table inherits, and the fallback is not taken. Without a custom
  description the builder then raises a TypeError where it lower-cases the label. (On every
  status whose lower-casing is not an inherited name the function returns the entries the
  claim lists, see \<open>getStatusStyling_recognized\<close>.)
\<close>

theorem getStatusStyling_constructor:
  "getStatusStyling toLowerCaseASCII (js ''constructor'') = Inherited (js ''constructor'')
   \<and> getStatusStyling toLowerCaseASCII (js ''constructor'') \<noteq> Own styling_success
   \<and> buildEmbed toLowerCaseASCII now context (js ''constructor'') customTitle [] customColor
         includeDetails = Inl TypeError"
proof -
  have k: "toLowerCaseASCII (js ''constructor'') = js ''constructor''"
    by (simp add: toLowerCaseASCII_def js_def)
  have m: "js ''constructor'' \<in> set objectPrototypeKeys"
    by (simp add: objectPrototypeKeys_def)
  from k m have "toLowerCaseASCII (js ''constructor'') \<in> set objectPrototypeKeys" by simp
  then show ?thesis
    using getStatusStyling_inherited [of toLowerCaseASCII "js ''constructor''"]
      buildEmbed_raises [of "[]" toLowerCaseASCII "js ''constructor''"] k by simp
qed

text \<open>
  C9. A run of the builder, from any world, returns the value of \<open>buildEmbed\<close> at the
  context object and at the instant of the clock, so it has no other input. It leaves the
  context object, with everything reachable from it, and the clock as they were. It leaves
  every array that existed as it was: when it raises the store is unchanged, and when it
  returns the store has one array more, the one whose truncated fields are the fields of the
  embed. It adds nothing to the record of what was done to the outside when it raises, and
  the one reading of the clock when it returns. Two runs with the same status and overrides,
  from two worlds that have equal context objects and may differ in everything else, both
  raise or both return, and the two embeds have the same title, description, color, fields
  and footer text; each carries the instant of its own clock as timestamp.
\<close>

theorem buildEmbed_pure:
  assumes "run_state (buildEmbedRun toLowerCase jobStatus customTitle customDescription customColor
                        includeDetails) w1 = (r1, w1')"
    and "run_state (buildEmbedRun toLowerCase jobStatus customTitle customDescription customColor
                        includeDetails) w2 = (r2, w2')"
    and "contextObject w1 = contextObject w2"
  shows "r1 = buildEmbed toLowerCase (clock w1) (contextObject w1) jobStatus customTitle
                customDescription customColor includeDetails
       \<and> contextObject w1' = contextObject w1
       \<and> clock w1' = clock w1
       \<and> (case r1 of
             Inl err \<Rightarrow> fieldArrays w1' = fieldArrays w1 \<and> interactions w1' = interactions w1
           | Inr e \<Rightarrow> (\<exists>pushed. fieldArrays w1' = fieldArrays w1 @ [pushed]
                               \<and> embed_fields e = map validateField pushed)
                     \<and> interactions w1' = interactions w1 @ [ClockRead])
       \<and> (r1 = Inl TypeError \<and> r2 = Inl TypeError
          \<or> (\<exists>e1 e2. r1 = Inr e1 \<and> r2 = Inr e2
                \<and> title e1 = title e2 \<and> description e1 = description e2 \<and> color e1 = color e2
                \<and> embed_fields e1 = embed_fields e2 \<and> footer_text e1 = footer_text e2
                \<and> timestamp e1 = clock w1 \<and> timestamp e2 = clock w2))"
proof (cases "embedDescription toLowerCase jobStatus customDescription
                (workflowName (contextObject w1)) (getStatusStyling toLowerCase jobStatus)
                (getEventMetadata (eventName (contextObject w1)) (payload (contextObject w1)))")
  case (Inl err)
  then have b1: "buildEmbed toLowerCase (clock w1) (contextObject w1) jobStatus customTitle
                   customDescription customColor includeDetails = Inl err"
    and b2: "buildEmbed toLowerCase (clock w2) (contextObject w2) jobStatus customTitle
                   customDescription customColor includeDetails = Inl err"
    using assms(3) by (simp_all add: buildEmbed_def Let_def)
  have err: "err = TypeError" by (cases err) simp
  from assms(1) b1 have r1: "r1 = Inl err" and w1': "w1' = w1"
    by (simp_all add: run_buildEmbedRun)
  from assms(2) b2 have r2: "r2 = Inl err"
    by (simp add: run_buildEmbedRun)
  from r1 r2 b1 err show ?thesis
    unfolding w1' by simp
next
  case (Inr descr)
  then obtain e1 e2 where
    b1: "buildEmbed toLowerCase (clock w1) (contextObject w1) jobStatus customTitle
           customDescription customColor includeDetails = Inr e1"
    and b2: "buildEmbed toLowerCase (clock w2) (contextObject w2) jobStatus customTitle
           customDescription customColor includeDetails = Inr e2"
    and eq: "title e1 = title e2" "description e1 = description e2" "color e1 = color e2"
      "embed_fields e1 = embed_fields e2" "footer_text e1 = footer_text e2"
      "timestamp e1 = clock w1" "timestamp e2 = clock w2"
    and f: "embed_fields e1 = map validateField
              ((if includeDetails then detailFields (contextObject w1) else [])
               @ runLinkFields (contextObject w1))"
    using assms(3) by (simp add: buildEmbed_def Let_def)
  from assms(1) b1 have r1: "r1 = Inr e1"
    and w1': "w1' = w1\<lparr>fieldArrays := fieldArrays w1
                         @ [(if includeDetails then detailFields (contextObject w1) else [])
                            @ runLinkFields (contextObject w1)],
                       interactions := interactions w1 @ [ClockRead]\<rparr>"
    by (simp_all add: run_buildEmbedRun)
  from assms(2) b2 have r2: "r2 = Inr e2"
    by (simp add: run_buildEmbedRun)
  from r1 r2 b1 eq f show ?thesis
    unfolding w1' by simp
qed

theorem buildEmbed_pure_witness:
  "\<exists>e1 e2 w1' w2'.
     run_state (buildEmbedRun toLowerCaseASCII (js ''Failure'') [] (js ''Deployed'') [] True)
       example_world = (Inr e1, w1')
   \<and> run_state (buildEmbedRun toLowerCaseASCII (js ''Failure'') [] (js ''Deployed'') [] True)
       later_world = (Inr e2, w2')
   \<and> contextObject example_world = contextObject later_world
   \<and> contextObject w1' = example_context \<and> contextObject w2' = example_context
   \<and> length (fieldArrays w1') = 1
   \<and> length (fieldArrays w2') = 2
   \<and> hd (fieldArrays w2') = [\<lparr>name = js ''kept'', value = js ''as it is'', inline = False\<rparr>]
   \<and> interactions w1' = [ClockRead]
   \<and> interactions w2' = [Logged (js ''Starting Discord notification...''), ClockRead]
   \<and> title e1 = [0x274C] @ js '' '' @ [0xD83D, 0xDCE4] @ js '' Push Failed''
   \<and> title e2 = title e1 \<and> description e2 = description e1 \<and> color e2 = color e1
   \<and> embed_fields e2 = embed_fields e1 \<and> length (embed_fields e1) = 8
   \<and> footer_text e2 = footer_text e1
   \<and> timestamp e1 = js ''2026-11-03T09:00:00.000Z''
   \<and> timestamp e2 = js ''2026-11-03T09:00:01.000Z''"
proof -
  let ?run = "run_state (buildEmbedRun toLowerCaseASCII (js ''Failure'') [] (js ''Deployed'') []
                True)"
  obtain r1 w1' where run1: "?run example_world = (r1, w1')"
    by (cases "?run example_world") blast
  obtain r2 w2' where run2: "?run later_world = (r2, w2')"
    by (cases "?run later_world") blast
  have c: "contextObject example_world = contextObject later_world"
    "contextObject example_world = example_context"
    "contextObject later_world = example_context"
    by (simp_all add: example_world_def later_world_def)
  have w: "fieldArrays example_world = []" "interactions example_world = []"
    "clock example_world = js ''2026-11-03T09:00:00.000Z''"
    "fieldArrays later_world = [[\<lparr>name = js ''kept'', value = js ''as it is'', inline = False\<rparr>]]"
    "interactions later_world = [Logged (js ''Starting Discord notification...'')]"
    "clock later_world = js ''2026-11-03T09:00:01.000Z''"
    by (simp_all add: example_world_def later_world_def)
  from buildEmbed_returns [of "js ''Deployed''" toLowerCaseASCII "js ''Failure''"
      "clock example_world" example_context "[]" "[]" True] deployed_nonempty
  obtain e where e: "buildEmbed toLowerCaseASCII (clock example_world) example_context
                       (js ''Failure'') [] (js ''Deployed'') [] True = Inr e"
    by blast
  note first = buildEmbed_pure [OF run1 run2 c(1)]
  note second = buildEmbed_pure [OF run2 run1 c(1) [symmetric]]
  from first e c(2) have r1: "r1 = Inr e" by simp
  with first obtain e2 where r2: "r2 = Inr e2"
    and same: "title e = title e2" "description e = description e2" "color e = color e2"
      "embed_fields e = embed_fields e2" "footer_text e = footer_text e2"
      "timestamp e = clock example_world" "timestamp e2 = clock later_world"
    by auto
  from first r1 obtain pushed where p1: "fieldArrays w1' = fieldArrays example_world @ [pushed]"
    and i1: "interactions w1' = interactions example_world @ [ClockRead]"
    and c1: "contextObject w1' = contextObject example_world"
    by auto
  from second r2 obtain pushed2 where p2: "fieldArrays w2' = fieldArrays later_world @ [pushed2]"
    and i2: "interactions w2' = interactions later_world @ [ClockRead]"
    and c2: "contextObject w2' = contextObject later_world"
    by auto
  have k: "toLowerCaseASCII (js ''Failure'') = js ''failure''"
    by (simp add: toLowerCaseASCII_def js_def)
  have s: "getStatusStyling toLowerCaseASCII (js ''Failure'')
           = Own \<lparr>style_color = Finite 0xdc3545, style_emoji = [0x274C], style_label = js ''Failed''\<rparr>"
    by (simp add: getStatusStyling_def getProperty_def styling_def k) (simp add: js_def)
  have m: "readProp meta_emoji (getEventMetadata (eventName example_context) (payload example_context))
             = Some [0xD83D, 0xDCE4]"
    "readProp meta_title (getEventMetadata (eventName example_context) (payload example_context))
             = Some (js ''Push'')"
    by (simp_all add: getEventMetadata_def getProperty_def metadata_def example_context_def)
  have ne: "js ''failure'' \<noteq> js ''success''"
    by (simp add: js_def)
  from buildEmbed_title [OF e]
  have t: "title e = [0x274C] @ js '' '' @ [0xD83D, 0xDCE4] @ js '' Push Failed''"
    by (simp add: embedTitle_def k ne s m interp_def) (simp add: js_def)
  from e have "embed_fields e
      = map validateField (detailFields example_context @ runLinkFields example_context)"
    by (auto simp: buildEmbed_def Let_def split: sum.splits)
  then have n: "length (embed_fields e) = 8"
    using example_pushed_count by simp
  from run1 run2 r1 r2 same p1 p2 i1 i2 c1 c2 c w t n show ?thesis
    by simp
qed

text \<open>
  C10. A commit identifier that is the string \<^verbatim>\<open>Unknown\<close> gives the result that a
  missing one gives, and the embed built with details has no field named \<^verbatim>\<open>Commit\<close>.
\<close>

theorem unknown_sha_is_absent:
  assumes "customDescription \<noteq> [] \<or> toLowerCase jobStatus \<notin> set objectPrototypeKeys"
  shows "buildEmbed toLowerCase now (context\<lparr>sha := Some (js ''Unknown'')\<rparr>) jobStatus customTitle
           customDescription customColor includeDetails
         = buildEmbed toLowerCase now (context\<lparr>sha := None\<rparr>) jobStatus customTitle
             customDescription customColor includeDetails
       \<and> (\<exists>e. buildEmbed toLowerCase now (context\<lparr>sha := Some (js ''Unknown'')\<rparr>) jobStatus customTitle
                  customDescription customColor True = Inr e
              \<and> (\<forall>f \<in> set (embed_fields e). name f \<noteq> [0xD83D, 0xDCDD] @ js '' Commit''))"
proof
  show "buildEmbed toLowerCase now (context\<lparr>sha := Some (js ''Unknown'')\<rparr>) jobStatus customTitle
           customDescription customColor includeDetails
         = buildEmbed toLowerCase now (context\<lparr>sha := None\<rparr>) jobStatus customTitle
             customDescription customColor includeDetails"
    by (simp add: buildEmbed_def Let_def detailFields_unknown_sha sha_update_runLinkFields
          sha_update_constants cong: sum.case_cong)
next
  let ?c = "context\<lparr>sha := Some (js ''Unknown'')\<rparr>"
  from buildEmbed_returns [of customDescription toLowerCase jobStatus, OF assms]
  obtain e where e: "buildEmbed toLowerCase now ?c jobStatus customTitle customDescription
                       customColor True = Inr e"
    by blast
  have "\<forall>f \<in> set (embed_fields e). name f \<noteq> [0xD83D, 0xDCDD] @ js '' Commit''"
    using buildEmbed_fields [OF e] detailFields_no_commit [of ?c] runLinkFields_no_commit [of _ ?c]
      commitFields_unknown(1)
    by auto
  with e show "\<exists>e. buildEmbed toLowerCase now ?c jobStatus customTitle customDescription
                     customColor True = Inr e
              \<and> (\<forall>f \<in> set (embed_fields e). name f \<noteq> [0xD83D, 0xDCDD] @ js '' Commit'')"
    by blast
qed

theorem unknown_sha_is_absent_witness:
  "toLowerCaseASCII (js ''success'') \<notin> set objectPrototypeKeys
   \<and> buildEmbed toLowerCaseASCII [] (example_context\<lparr>sha := Some (js ''Unknown'')\<rparr>) (js ''success'')
         [] [] [] True
       = buildEmbed toLowerCaseASCII [] (example_context\<lparr>sha := None\<rparr>) (js ''success'') [] [] [] True
   \<and> (\<exists>e. buildEmbed toLowerCaseASCII [] (example_context\<lparr>sha := Some (js ''Unknown'')\<rparr>)
              (js ''success'') [] [] [] True = Inr e
          \<and> (\<forall>f \<in> set (embed_fields e). name f \<noteq> [0xD83D, 0xDCDD] @ js '' Commit''))"
  using unknown_sha_is_absent [of "[]" toLowerCaseASCII "js ''success''" "[]" example_context "[]" "[]"
      True, OF success_not_inherited] success_lower_own
  by blast

end
